theory Spec2Isabelle
  imports Main
begin

section \<open>Strings as the program uses them\<close>

text \<open>
  Strings are lists of 8-bit characters: the strings of the program whose code units
  are all below 256. The helpers below are the library calls of the source:
  \<open>String.prototype.split\<close> with a one-character separator, \<open>trim\<close> (the white
  space below 256 is the space, tab, line feed, vertical tab, form feed, carriage return
  and the no-break space), \<open>Array.prototype.join\<close>, \<open>toLowerCase\<close>,
  \<open>toUpperCase\<close> and \<open>substring(0, n)\<close> (which is \<open>take n\<close>).
\<close>

fun split_on :: "char \<Rightarrow> string \<Rightarrow> string list" where
  "split_on c [] = [[]]"
| "split_on c (x # xs) =
     (if x = c then [] # split_on c xs
      else (case split_on c xs of
              [] \<Rightarrow> [[x]]
            | w # ws \<Rightarrow> (x # w) # ws))"

definition is_ws :: "char \<Rightarrow> bool" where
  "is_ws c = (c \<in> set [CHR '' '', CHR 0x09, CHR 0x0A, CHR 0x0B, CHR 0x0C, CHR 0x0D, CHR 0xA0])"

definition trim :: "string \<Rightarrow> string" where
  "trim s = rev (dropWhile is_ws (rev (dropWhile is_ws s)))"

fun join :: "string \<Rightarrow> string list \<Rightarrow> string" where
  "join sep [] = []"
| "join sep [x] = x"
| "join sep (x # y # ys) = x @ sep @ join sep (y # ys)"

definition isUpper :: "char \<Rightarrow> bool" where
  "isUpper c = (let k = (of_char c :: nat) in
      (65 \<le> k \<and> k \<le> 90) \<or> (192 \<le> k \<and> k \<le> 222 \<and> k \<noteq> 215))"

definition isLowerAscii :: "char \<Rightarrow> bool" where
  "isLowerAscii c = (let k = (of_char c :: nat) in 97 \<le> k \<and> k \<le> 122)"

fun toLowerCase_char :: "char \<Rightarrow> char" where
  "toLowerCase_char (Char b0 b1 b2 b3 b4 b5 b6 b7) =
     (if isUpper (Char b0 b1 b2 b3 b4 b5 b6 b7) then Char b0 b1 b2 b3 b4 True b6 b7
      else Char b0 b1 b2 b3 b4 b5 b6 b7)"

text \<open>
  \<open>toUpperCase\<close> is only applied to a language tag for which \<open>isMediaOrBinary\<close> holds,
  that is to one of ten lower-case ASCII words, so the ASCII letters are all it has to
  handle.
\<close>

fun toUpperCase_char :: "char \<Rightarrow> char" where
  "toUpperCase_char (Char b0 b1 b2 b3 b4 b5 b6 b7) =
     (if isLowerAscii (Char b0 b1 b2 b3 b4 b5 b6 b7) then Char b0 b1 b2 b3 b4 False b6 b7
      else Char b0 b1 b2 b3 b4 b5 b6 b7)"

definition toLowerCase :: "string \<Rightarrow> string" where
  "toLowerCase s = map toLowerCase_char s"

definition toUpperCase :: "string \<Rightarrow> string" where
  "toUpperCase s = map toUpperCase_char s"

section \<open>Data model (types.ts)\<close>

datatype FileType = FILE | FOLDER

text \<open>
  \<open>FileSystemNode\<close> of types.ts. An optional field is an \<open>option\<close>; \<open>parentId\<close>
  is never read by the program, so \<open>null\<close> and an absent field are both \<open>None\<close>.
  The host handle is opaque (\<open>any\<close> in the source): the type parameter \<open>'h\<close>.
\<close>

datatype 'h FileSystemNode = FileSystemNode
  (node_id: string)
  (name: string)
  (type: FileType)
  (content: "string option")
  (language: "string option")
  (children: "'h FileSystemNode list option")
  (isOpen: "bool option")
  (parentId: "string option")
  (handle: "'h option")

record Tab =
  tab_id :: string
  title :: string
  isDirty :: bool

text \<open>The part of the component state that the terminal reads and writes.\<close>

record 'h app_state =
  fileSystem :: "'h FileSystemNode list"
  openTabs :: "Tab list"
  termPath :: "string list"

text \<open>
  The host file-system capability. Every call may throw; \<open>Inl e\<close> is a throw, with
  \<open>e\<close> the text that the template literal \<open>${e}\<close> renders.
  \<open>getFileText\<close> is \<open>getFile()\<close> followed by \<open>text()\<close>.
\<close>

record 'h host =
  getDirectoryHandle :: "'h \<Rightarrow> string \<Rightarrow> string + 'h"
  getFileHandle :: "'h \<Rightarrow> string \<Rightarrow> string + 'h"
  removeEntry :: "'h \<Rightarrow> string \<Rightarrow> string + unit"
  getFileText :: "'h \<Rightarrow> string + string"

section \<open>Tree helpers\<close>

fun findNode :: "'h FileSystemNode list \<Rightarrow> string \<Rightarrow> 'h FileSystemNode option" where
  "findNode [] i = None"
| "findNode (FileSystemNode nid nm ty co la None ope pa ha # ns) i =
     (if nid = i then Some (FileSystemNode nid nm ty co la None ope pa ha)
      else findNode ns i)"
| "findNode (FileSystemNode nid nm ty co la (Some cs) ope pa ha # ns) i =
     (if nid = i then Some (FileSystemNode nid nm ty co la (Some cs) ope pa ha)
      else (case findNode cs i of
              Some found \<Rightarrow> Some found
            | None \<Rightarrow> findNode ns i))"

text \<open>
  \<open>findContent\<close> inside \<open>getFileContent\<close>. The test \<open>if (found)\<close> on a
  \<open>string | null\<close> is false for \<open>null\<close> and for the empty string.
\<close>

fun findContent :: "string \<Rightarrow> 'h FileSystemNode list \<Rightarrow> string option" where
  "findContent fileName [] = None"
| "findContent fileName (FileSystemNode nid nm ty co la None ope pa ha # ns) =
     (if nm = fileName \<and> co \<noteq> None then co
      else findContent fileName ns)"
| "findContent fileName (FileSystemNode nid nm ty co la (Some cs) ope pa ha # ns) =
     (if nm = fileName \<and> co \<noteq> None then co
      else (case findContent fileName cs of
              Some found \<Rightarrow> (if found \<noteq> [] then Some found else findContent fileName ns)
            | None \<Rightarrow> findContent fileName ns))"

definition getFileContent :: "'h FileSystemNode list \<Rightarrow> string \<Rightarrow> string" where
  "getFileContent fs fileName =
     (case findContent fileName fs of
        None \<Rightarrow> []
      | Some c \<Rightarrow> c)"

definition getLanguageFromExtension :: "string \<Rightarrow> string" where
  "getLanguageFromExtension filename =
     (let ext = toLowerCase (last (split_on CHR ''.'' filename)) in
      if ext \<in> set [''js'', ''mjs''] then ''javascript''
      else if ext = ''ts'' then ''typescript''
      else if ext = ''tsx'' then ''tsx''
      else if ext = ''jsx'' then ''jsx''
      else if ext \<in> set [''html'', ''htm''] then ''html''
      else if ext = ''css'' then ''css''
      else if ext = ''scss'' then ''scss''
      else if ext = ''less'' then ''less''
      else if ext = ''json'' then ''json''
      else if ext = ''py'' then ''python''
      else if ext \<in> set [''java'', ''class''] then ''java''
      else if ext \<in> set [''c'', ''h''] then ''c''
      else if ext = ''cpp'' then ''cpp''
      else if ext = ''cs'' then ''csharp''
      else if ext = ''go'' then ''go''
      else if ext = ''rs'' then ''rust''
      else if ext = ''php'' then ''php''
      else if ext = ''sql'' then ''sql''
      else if ext = ''xml'' then ''xml''
      else if ext \<in> set [''yaml'', ''yml''] then ''yaml''
      else if ext = ''svg'' then ''xml''
      else if ext \<in> set [''md'', ''txt'', ''gitignore'', ''env''] then ''text''
      else if ext = ''csv'' then ''csv''
      else if ext \<in> set [''ini'', ''cfg'', ''conf''] then ''ini''
      else if ext \<in> set [''dll'', ''sys'', ''dat'', ''tmp''] then ''system''
      else if ext \<in> set [''doc'', ''docx'', ''rtf'', ''odt''] then ''document''
      else if ext = ''pdf'' then ''pdf''
      else if ext \<in> set [''xls'', ''xlsx'', ''ods''] then ''spreadsheet''
      else if ext \<in> set [''png'', ''jpg'', ''jpeg'', ''gif'', ''webp'', ''bmp'', ''ico'',
                           ''tiff'', ''tif''] then ''image''
      else if ext \<in> set [''mp3'', ''wav'', ''ogg'', ''flac'', ''aac''] then ''audio''
      else if ext \<in> set [''mp4'', ''webm'', ''mkv'', ''mov'', ''avi'', ''wmv''] then ''video''
      else if ext \<in> set [''zip'', ''rar'', ''7z'', ''tar'', ''gz'', ''tgz''] then ''archive''
      else if ext \<in> set [''exe'', ''msi'', ''bin'', ''app'', ''deb'', ''rpm''] then ''executable''
      else ''text'')"

definition isMediaOrBinary :: "string option \<Rightarrow> bool" where
  "isMediaOrBinary lang =
     ((case lang of None \<Rightarrow> [] | Some l \<Rightarrow> l) \<in>
        set [''image'', ''audio'', ''video'', ''pdf'', ''binary'', ''system'', ''document'',
             ''spreadsheet'', ''archive'', ''executable''])"

text \<open>
  \<open>addNodeToTree\<close>: a node whose id is \<open>parentId\<close> gets the new node appended and is
  opened, and its own children are not visited; any other node with children is
  rebuilt from the recursive call.
\<close>

fun addNodeToTree ::
  "'h FileSystemNode list \<Rightarrow> string \<Rightarrow> 'h FileSystemNode \<Rightarrow> 'h FileSystemNode list" where
  "addNodeToTree [] parent newNode = []"
| "addNodeToTree (FileSystemNode nid nm ty co la None ope pa ha # ns) parent newNode =
     (if nid = parent then FileSystemNode nid nm ty co la (Some [newNode]) (Some True) pa ha
      else FileSystemNode nid nm ty co la None ope pa ha)
     # addNodeToTree ns parent newNode"
| "addNodeToTree (FileSystemNode nid nm ty co la (Some cs) ope pa ha # ns) parent newNode =
     (if nid = parent then FileSystemNode nid nm ty co la (Some (cs @ [newNode])) (Some True) pa ha
      else FileSystemNode nid nm ty co la (Some (addNodeToTree cs parent newNode)) ope pa ha)
     # addNodeToTree ns parent newNode"

text \<open>\<open>removeNodeFromTree\<close>: filter at this level, then recurse into what is left.\<close>

fun removeNodeFromTree :: "'h FileSystemNode list \<Rightarrow> string \<Rightarrow> 'h FileSystemNode list" where
  "removeNodeFromTree [] nodeId = []"
| "removeNodeFromTree (FileSystemNode nid nm ty co la None ope pa ha # ns) nodeId =
     (if nid \<noteq> nodeId
      then FileSystemNode nid nm ty co la None ope pa ha # removeNodeFromTree ns nodeId
      else removeNodeFromTree ns nodeId)"
| "removeNodeFromTree (FileSystemNode nid nm ty co la (Some cs) ope pa ha # ns) nodeId =
     (if nid \<noteq> nodeId
      then FileSystemNode nid nm ty co la (Some (removeNodeFromTree cs nodeId)) ope pa ha
           # removeNodeFromTree ns nodeId
      else removeNodeFromTree ns nodeId)"

section \<open>The terminal (handleTerminalCommand)\<close>

text \<open>
  The handler reads the state it closed over and queues state updates through the
  setters; each setter call of the source is one \<open>update\<close> below, applied to the
  previous state in the order queued. Commands run one at a time, so the state a
  setter's updater function sees is the state the handler read.
\<close>

datatype 'h update =
    SetFileSystem_add string "'h FileSystemNode"
  | SetFileSystem_remove string
  | SetOpenTabs_filter string
  | SetTermPath_pop
  | SetTermPath_push string

fun apply_update :: "'h app_state \<Rightarrow> 'h update \<Rightarrow> 'h app_state" where
  "apply_update s (SetFileSystem_add parent newNode) =
     s\<lparr>fileSystem := addNodeToTree (fileSystem s) parent newNode\<rparr>"
| "apply_update s (SetFileSystem_remove nodeId) =
     s\<lparr>fileSystem := removeNodeFromTree (fileSystem s) nodeId\<rparr>"
| "apply_update s (SetOpenTabs_filter nodeId) =
     s\<lparr>openTabs := filter (\<lambda>t. tab_id t \<noteq> nodeId) (openTabs s)\<rparr>"
| "apply_update s SetTermPath_pop = s\<lparr>termPath := butlast (termPath s)\<rparr>"
| "apply_update s (SetTermPath_push i) = s\<lparr>termPath := termPath s @ [i]\<rparr>"

text \<open>\<open>c.type === FileType.FOLDER ? `[${c.name}]` : c.name\<close>\<close>

definition ls_entry :: "'h FileSystemNode \<Rightarrow> string" where
  "ls_entry c = (if type c = FOLDER then ''['' @ name c @ '']'' else name c)"

definition cmd_ls :: "'h FileSystemNode option \<Rightarrow> string \<times> 'h update list" where
  "cmd_ls currentDirNode =
     (case currentDirNode of
        None \<Rightarrow> ([], [])
      | Some d \<Rightarrow>
          (case children d of
             None \<Rightarrow> ([], [])
           | Some cs \<Rightarrow> (join ''  '' (map ls_entry cs), [])))"

definition cmd_pwd :: "string list \<Rightarrow> string \<times> 'h update list" where
  "cmd_pwd path = (''/'' @ join ''/'' path, [])"

definition cmd_cd ::
  "string list \<Rightarrow> 'h FileSystemNode option \<Rightarrow> string option \<Rightarrow> string \<times> 'h update list" where
  "cmd_cd path currentDirNode arg =
     (case arg of
        None \<Rightarrow> ([], [])
      | Some a \<Rightarrow>
          if a = [] then ([], [])
          else if a = ''..'' then
            (if length path > 1 then ([], [SetTermPath_pop]) else (''Already at root'', []))
          else
            (case (case currentDirNode of
                     None \<Rightarrow> None
                   | Some d \<Rightarrow>
                       (case children d of
                          None \<Rightarrow> None
                        | Some cs \<Rightarrow> find (\<lambda>c. name c = a \<and> type c = FOLDER) cs)) of
               Some targetFolder \<Rightarrow> ([], [SetTermPath_push (node_id targetFolder)])
             | None \<Rightarrow> (''cd: no such file or directory: '' @ a, [])))"

definition cmd_mkdir ::
  "'h host \<Rightarrow> 'h FileSystemNode option \<Rightarrow> string option \<Rightarrow> string \<times> 'h update list" where
  "cmd_mkdir h currentDirNode arg =
     (case arg of
        None \<Rightarrow> (''usage: mkdir <directory_name>'', [])
      | Some a \<Rightarrow>
          if a = [] then (''usage: mkdir <directory_name>'', [])
          else
            (case currentDirNode of
               None \<Rightarrow> (''Error'', [])
             | Some d \<Rightarrow>
                 (case handle d of
                    Some dh \<Rightarrow>
                      (case getDirectoryHandle h dh a of
                         Inr newDirHandle \<Rightarrow>
                           (''Directory '' @ [CHR 0x27] @ a @ [CHR 0x27] @ '' created.'',
                            [SetFileSystem_add (node_id d)
                               (FileSystemNode (node_id d @ ''_'' @ a) a FOLDER None None
                                  (Some []) (Some False) (Some (node_id d))
                                  (Some newDirHandle))])
                       | Inl e \<Rightarrow> (''Error creating directory on disk: '' @ e, []))
                  | None \<Rightarrow>
                      (''Virtual directory '' @ [CHR 0x27] @ a @ [CHR 0x27] @ '' created.'',
                       [SetFileSystem_add (node_id d)
                          (FileSystemNode (node_id d @ ''_'' @ a) a FOLDER None None
                             (Some []) (Some False) (Some (node_id d)) None)]))))"

definition cmd_touch ::
  "'h host \<Rightarrow> 'h FileSystemNode option \<Rightarrow> string option \<Rightarrow> string \<times> 'h update list" where
  "cmd_touch h currentDirNode arg =
     (case arg of
        None \<Rightarrow> (''usage: touch <filename>'', [])
      | Some a \<Rightarrow>
          if a = [] then (''usage: touch <filename>'', [])
          else
            (case currentDirNode of
               None \<Rightarrow> (''Error'', [])
             | Some d \<Rightarrow>
                 (case handle d of
                    Some dh \<Rightarrow>
                      (case getFileHandle h dh a of
                         Inr newFileHandle \<Rightarrow>
                           (''File '' @ [CHR 0x27] @ a @ [CHR 0x27] @ '' created.'',
                            [SetFileSystem_add (node_id d)
                               (FileSystemNode (node_id d @ ''_'' @ a) a FILE (Some [])
                                  (Some (getLanguageFromExtension a)) None None
                                  (Some (node_id d)) (Some newFileHandle))])
                       | Inl e \<Rightarrow> (''Error creating file on disk: '' @ e, []))
                  | None \<Rightarrow>
                      (''Virtual file '' @ [CHR 0x27] @ a @ [CHR 0x27] @ '' created.'',
                       [SetFileSystem_add (node_id d)
                          (FileSystemNode (node_id d @ ''_'' @ a) a FILE (Some [])
                             (Some (getLanguageFromExtension a)) None None
                             (Some (node_id d)) None)]))))"

definition cmd_rm ::
  "'h host \<Rightarrow> 'h FileSystemNode option \<Rightarrow> string option \<Rightarrow> string \<times> 'h update list" where
  "cmd_rm h currentDirNode arg =
     (case arg of
        None \<Rightarrow> (''usage: rm <filename>'', [])
      | Some a \<Rightarrow>
          if a = [] then (''usage: rm <filename>'', [])
          else
            (case (case currentDirNode of
                     None \<Rightarrow> None
                   | Some d \<Rightarrow>
                       (case children d of
                          None \<Rightarrow> None
                        | Some cs \<Rightarrow> find (\<lambda>c. name c = a) cs)) of
               None \<Rightarrow> (''rm: '' @ a @ '': No such file or directory'', [])
             | Some targetNode \<Rightarrow>
                 (case (case currentDirNode of None \<Rightarrow> None | Some d \<Rightarrow> handle d) of
                    Some dh \<Rightarrow>
                      (case removeEntry h dh a of
                         Inl e \<Rightarrow> (''Error deleting from disk: '' @ e, [])
                       | Inr u \<Rightarrow>
                           ([], [SetFileSystem_remove (node_id targetNode),
                                 SetOpenTabs_filter (node_id targetNode)]))
                  | None \<Rightarrow>
                      ([], [SetFileSystem_remove (node_id targetNode),
                            SetOpenTabs_filter (node_id targetNode)]))))"

definition cmd_cat ::
  "'h host \<Rightarrow> 'h FileSystemNode option \<Rightarrow> string option \<Rightarrow> string \<times> 'h update list" where
  "cmd_cat h currentDirNode arg =
     (case arg of
        None \<Rightarrow> (''Usage: cat <filename>'', [])
      | Some a \<Rightarrow>
          if a = [] then (''Usage: cat <filename>'', [])
          else
            (case (case currentDirNode of
                     None \<Rightarrow> None
                   | Some d \<Rightarrow>
                       (case children d of
                          None \<Rightarrow> None
                        | Some cs \<Rightarrow> find (\<lambda>c. name c = a \<and> type c = FILE) cs)) of
               None \<Rightarrow> (''File not found: '' @ a, [])
             | Some fileToRead \<Rightarrow>
                 if isMediaOrBinary (language fileToRead)
                 then (''['' @ (case language fileToRead of
                                   None \<Rightarrow> ''undefined''
                                 | Some l \<Rightarrow> toUpperCase l) @ '' File]'', [])
                 else
                   (case (handle fileToRead, content fileToRead) of
                      (Some fh, None) \<Rightarrow>
                        (case getFileText h fh of
                           Inr t \<Rightarrow> (take 500 t, [])
                         | Inl e \<Rightarrow> (''Error reading file'', []))
                    | _ \<Rightarrow>
                        (let c = (case content fileToRead of None \<Rightarrow> [] | Some c \<Rightarrow> c)
                         in (take 500 c @ (if length c > 500 then ''...'' else []), [])))))"

text \<open>
  \<open>findNode(fileSystem, termPath[termPath.length - 1])\<close>: on an empty path the index
  gives \<open>undefined\<close>, which is no node's id.
\<close>

definition currentDirNode :: "'h app_state \<Rightarrow> 'h FileSystemNode option" where
  "currentDirNode s =
     (if termPath s = [] then None else findNode (fileSystem s) (last (termPath s)))"

definition handleTerminalCommand ::
  "'h host \<Rightarrow> 'h app_state \<Rightarrow> string \<Rightarrow> string \<times> 'h update list" where
  "handleTerminalCommand h s cmd =
     (let parts = split_on CHR '' '' (trim cmd);
          command = hd parts;
          arg = (if length parts > 1 then Some (parts ! 1) else None)
      in
        if currentDirNode s = None \<and> command \<noteq> ''ls''
        then (''Error: Current directory lost.'', [])
        else if command = ''ls'' then cmd_ls (currentDirNode s)
        else if command = ''pwd'' then cmd_pwd (termPath s)
        else if command = ''cd'' then cmd_cd (termPath s) (currentDirNode s) arg
        else if command = ''mkdir'' then cmd_mkdir h (currentDirNode s) arg
        else if command = ''touch'' \<or> command = ''code'' then cmd_touch h (currentDirNode s) arg
        else if command = ''rm'' then cmd_rm h (currentDirNode s) arg
        else if command = ''cat'' then cmd_cat h (currentDirNode s) arg
        else if command = ''clear'' then ([], [])
        else if command = ''npm'' then
          (if arg = Some ''install'' \<or> arg = Some ''i'' then (''added 142 packages in 2s'', [])
           else (''npm command not fully simulated.'', []))
        else if command = ''echo'' then (join '' '' (tl parts), [])
        else (''command not found: '' @ command, []))"

text \<open>One command, start to finish: the output and the state after the queued updates.\<close>

definition run_command :: "'h host \<Rightarrow> 'h app_state \<Rightarrow> string \<Rightarrow> string \<times> 'h app_state" where
  "run_command h s cmd =
     (case handleTerminalCommand h s cmd of
        (out, ups) \<Rightarrow> (out, foldl apply_update s ups))"

section \<open>Ingestion\<close>

subsection \<open>Native directory enumeration (processDirectoryHandle)\<close>

text \<open>
  A host directory entry: its name, its \<open>kind\<close>, the entries that iterating
  \<open>values()\<close> yields, and whether that iteration throws. The entry itself is the
  handle that the node keeps.
\<close>

datatype hentry = HEntry
  (entry_name: string)
  (entry_kind: string)
  (entry_values: "hentry list")
  (values_fail: bool)

text \<open>
  The comparator of the final \<open>sort\<close>. \<open>localeCompare\<close> depends on the host locale
  and is a parameter. \<open>Array.prototype.sort\<close> is stable; it is modelled as a stable
  insertion sort.
\<close>

definition compare_nodes ::
  "(string \<Rightarrow> string \<Rightarrow> int) \<Rightarrow> 'h FileSystemNode \<Rightarrow> 'h FileSystemNode \<Rightarrow> int" where
  "compare_nodes localeCompare a b =
     (if type a = type b then localeCompare (name a) (name b)
      else if type a = FOLDER then - 1 else 1)"

fun insert_by :: "('a \<Rightarrow> 'a \<Rightarrow> int) \<Rightarrow> 'a \<Rightarrow> 'a list \<Rightarrow> 'a list" where
  "insert_by cmp x [] = [x]"
| "insert_by cmp x (y # ys) = (if cmp x y \<le> 0 then x # y # ys else y # insert_by cmp x ys)"

definition sort_by :: "('a \<Rightarrow> 'a \<Rightarrow> int) \<Rightarrow> 'a list \<Rightarrow> 'a list" where
  "sort_by cmp xs = foldr (insert_by cmp) xs []"

text \<open>\<open>parentId ? `${parentId}_${entry.name}` : entry.name\<close>: null and the empty string are falsy.\<close>

definition entry_id :: "string option \<Rightarrow> string \<Rightarrow> string" where
  "entry_id parent nm =
     (case parent of
        None \<Rightarrow> nm
      | Some p \<Rightarrow> if p = [] then nm else p @ ''_'' @ nm)"

text \<open>
  When iterating the directory throws, the function returns the empty list, whatever was
  collected before. The inner \<open>try\<close> of the source encloses only field reads on
  the entry and the recursive call, which catches its own errors; with names and kinds
  that are strings nothing in it throws, so it has no branch here. An entry that is
  neither a file nor a directory is skipped.
\<close>

fun processDirectoryHandle ::
  "(string \<Rightarrow> string \<Rightarrow> int) \<Rightarrow> hentry \<Rightarrow> string option \<Rightarrow> hentry FileSystemNode list" where
  "processDirectoryHandle localeCompare (HEntry dnm dkind entries fails) parent =
     (if fails then []
      else sort_by (compare_nodes localeCompare)
             (concat (map (\<lambda>entry.
                if entry_kind entry = ''file'' then
                  [FileSystemNode (entry_id parent (entry_name entry)) (entry_name entry) FILE
                     None (Some (getLanguageFromExtension (entry_name entry))) None None
                     parent (Some entry)]
                else if entry_kind entry = ''directory'' then
                  [FileSystemNode (entry_id parent (entry_name entry)) (entry_name entry) FOLDER
                     None None
                     (Some (processDirectoryHandle localeCompare entry
                              (Some (entry_id parent (entry_name entry)))))
                     (Some False) parent (Some entry)]
                else []) entries)))"

text \<open>\<open>openRealFolder\<close> when the picker succeeds: the tree it stores.\<close>

definition openRealFolder ::
  "(string \<Rightarrow> string \<Rightarrow> int) \<Rightarrow> hentry \<Rightarrow> hentry FileSystemNode list" where
  "openRealFolder localeCompare dirHandle =
     [FileSystemNode ''root'' (entry_name dirHandle) FOLDER None None
        (Some (processDirectoryHandle localeCompare dirHandle (Some ''root'')))
        (Some True) None (Some dirHandle)]"

subsection \<open>Flat file list (processInputFiles)\<close>

text \<open>
  One element of the \<open>FileList\<close>: its name, its \<open>webkitRelativePath\<close>, what
  \<open>text()\<close> gives (\<open>None\<close> when it throws) and the object URL the host would make.
\<close>

record input_file =
  file_name :: string
  webkitRelativePath :: string
  file_text :: "string option"
  object_url :: string

definition set_children ::
  "'h FileSystemNode \<Rightarrow> 'h FileSystemNode list option \<Rightarrow> 'h FileSystemNode" where
  "set_children n cs =
     FileSystemNode (node_id n) (name n) (type n) (content n) (language n) cs
       (isOpen n) (parentId n) (handle n)"

text \<open>
  \<open>getOrCreateFolder\<close> returns the folder it found or pushed. The source mutates the
  array in place and returns a reference into it; here the result is the array after
  the call and the position of that folder in it.
\<close>

fun getOrCreateFolder ::
  "'h FileSystemNode list \<Rightarrow> string \<Rightarrow> string \<Rightarrow> 'h FileSystemNode list \<times> nat" where
  "getOrCreateFolder [] nm parent =
     ([FileSystemNode (if parent = ''root'' then nm else parent @ ''_'' @ nm) nm FOLDER
         None None (Some []) (Some False) (Some parent) None], 0)"
| "getOrCreateFolder (n # ns) nm parent =
     (if name n = nm \<and> type n = FOLDER then (n # ns, 0)
      else (case getOrCreateFolder ns nm parent of
              (ns', k) \<Rightarrow> (n # ns', Suc k)))"

text \<open>
  The loop over the folder names of a path, then the push of the file into the deepest
  folder. \<open>mk\<close> builds the file node from \<open>currentParentId\<close>.
\<close>

fun place_file ::
  "'h FileSystemNode list \<Rightarrow> string \<Rightarrow> string list \<Rightarrow> (string \<Rightarrow> 'h FileSystemNode) \<Rightarrow>
   'h FileSystemNode list" where
  "place_file currentLevelNodes currentParentId [] mk = currentLevelNodes @ [mk currentParentId]"
| "place_file currentLevelNodes currentParentId (folderName # rest) mk =
     (case getOrCreateFolder currentLevelNodes folderName currentParentId of
        (nodes', k) \<Rightarrow>
          (let folderNode = nodes' ! k;
               cs = (case children folderNode of None \<Rightarrow> [] | Some cs \<Rightarrow> cs)
           in nodes'[k := set_children folderNode
                            (Some (place_file cs (node_id folderNode) rest mk))]))"

definition input_content :: "input_file \<Rightarrow> string \<Rightarrow> string" where
  "input_content f lang =
     (if isMediaOrBinary (Some lang) then object_url f
      else (case file_text f of
              Some t \<Rightarrow> t
            | None \<Rightarrow> ''Binary file cannot be displayed.''))"

definition add_input_file ::
  "'h FileSystemNode list \<Rightarrow> input_file \<Rightarrow> 'h FileSystemNode list" where
  "add_input_file rootChildren f =
     (let lang = getLanguageFromExtension (file_name f);
          c = input_content f lang;
          path = webkitRelativePath f
      in if path = [] then
           rootChildren @
             [FileSystemNode (file_name f) (file_name f) FILE (Some c) (Some lang) None None
                (Some ''root'') None]
         else
           (let parts = split_on CHR ''/'' path;
                fileName = last parts
            in place_file rootChildren ''root'' (butlast parts)
                 (\<lambda>currentParentId.
                    FileSystemNode (currentParentId @ ''_'' @ fileName) fileName FILE (Some c)
                      (Some lang) None None (Some currentParentId) None)))"

definition processInputFiles :: "input_file list \<Rightarrow> 'h FileSystemNode list" where
  "processInputFiles fileList =
     [FileSystemNode ''root'' ''Opened Project'' FOLDER None None
        (Some (foldl add_input_file [] fileList)) (Some True) None None]"

section \<open>Notions used to state the properties\<close>

text \<open>
  An argument that reaches the handler as \<open>parts[1]\<close> unchanged: not empty, no space
  inside, and no white space at its end (which \<open>trim\<close> would remove).
\<close>

definition word_arg :: "string \<Rightarrow> bool" where
  "word_arg a = (a \<noteq> [] \<and> CHR '' '' \<notin> set a \<and> \<not> is_ws (last a))"

text \<open>The nodes of a forest in depth-first order, and their ids.\<close>

fun nodes_dfs :: "'h FileSystemNode list \<Rightarrow> 'h FileSystemNode list" where
  "nodes_dfs [] = []"
| "nodes_dfs (FileSystemNode nid nm ty co la None ope pa ha # ns) =
     FileSystemNode nid nm ty co la None ope pa ha # nodes_dfs ns"
| "nodes_dfs (FileSystemNode nid nm ty co la (Some cs) ope pa ha # ns) =
     FileSystemNode nid nm ty co la (Some cs) ope pa ha # nodes_dfs cs @ nodes_dfs ns"

definition all_ids :: "'h FileSystemNode list \<Rightarrow> string list" where
  "all_ids fs = map node_id (nodes_dfs fs)"

text \<open>
  The parent-child links of a forest: the parent's id and the child's id, name and type,
  for every node that is in some node's children list.
\<close>

fun links :: "'h FileSystemNode list \<Rightarrow> (string \<times> string \<times> string \<times> FileType) list" where
  "links [] = []"
| "links (FileSystemNode nid nm ty co la None ope pa ha # ns) = links ns"
| "links (FileSystemNode nid nm ty co la (Some cs) ope pa ha # ns) =
     map (\<lambda>c. (nid, node_id c, name c, type c)) cs @ links cs @ links ns"

text \<open>
  An id rule \<open>R parent id name type\<close> holds of a node under a parent id, and of all
  that is below the node.
\<close>

fun tree_ok ::
  "(string \<Rightarrow> string \<Rightarrow> string \<Rightarrow> FileType \<Rightarrow> bool) \<Rightarrow> string \<Rightarrow> 'h FileSystemNode \<Rightarrow> bool" where
  "tree_ok R p (FileSystemNode nid nm ty co la ch ope pa ha) =
     (R p nid nm ty \<and>
      (case ch of
         None \<Rightarrow> True
       | Some cs \<Rightarrow> (\<forall>c \<in> set cs. tree_ok R nid c)))"

text \<open>The rule of the native enumeration and of the terminal: parent id, underscore, name.\<close>

definition prefixed_id :: "string \<Rightarrow> string \<Rightarrow> string \<Rightarrow> FileType \<Rightarrow> bool" where
  "prefixed_id p i nm ty = (i = p @ ''_'' @ nm)"

text \<open>
  The rule of the flat ingestion: a folder whose parent id is \<open>root\<close> has its name as
  id, any other folder is prefixed; a file is prefixed, or has its name as id under a
  parent with id \<open>root\<close> (a file selected without a relative path).
\<close>

definition flat_id :: "string \<Rightarrow> string \<Rightarrow> string \<Rightarrow> FileType \<Rightarrow> bool" where
  "flat_id p i nm ty =
     (case ty of
        FOLDER \<Rightarrow> i = (if p = ''root'' then nm else p @ ''_'' @ nm)
      | FILE \<Rightarrow> i = p @ ''_'' @ nm \<or> (p = ''root'' \<and> i = nm))"

text \<open>
  The links that the flat ingestion is to make for one file, read off its path alone.
  \<open>folder_id\<close> is the id of a folder under a parent id, \<open>path_links\<close> the chain
  of folder links along the folder names of a path, \<open>path_end\<close> the id of the deepest
  folder, \<open>file_link\<close> the link of the file itself: under the root with its bare name
  when it has no relative path, else in the deepest folder with that folder's id, an
  underscore and its name.
\<close>

definition folder_id :: "string \<Rightarrow> string \<Rightarrow> string" where
  "folder_id parent nm = (if parent = ''root'' then nm else parent @ ''_'' @ nm)"

fun path_links :: "string \<Rightarrow> string list \<Rightarrow> (string \<times> string \<times> string \<times> FileType) list" where
  "path_links p [] = []"
| "path_links p (n # rest) = (p, folder_id p n, n, FOLDER) # path_links (folder_id p n) rest"

fun path_end :: "string \<Rightarrow> string list \<Rightarrow> string" where
  "path_end p [] = p"
| "path_end p (n # rest) = path_end (folder_id p n) rest"

definition file_link :: "input_file \<Rightarrow> string \<times> string \<times> string \<times> FileType" where
  "file_link f =
     (if webkitRelativePath f = [] then (''root'', file_name f, file_name f, FILE)
      else
        (let parts = split_on CHR ''/'' (webkitRelativePath f);
             p = path_end ''root'' (butlast parts)
         in (p, p @ ''_'' @ last parts, last parts, FILE)))"

definition file_links :: "input_file \<Rightarrow> (string \<times> string \<times> string \<times> FileType) list" where
  "file_links f =
     (if webkitRelativePath f = [] then []
      else path_links ''root'' (butlast (split_on CHR ''/'' (webkitRelativePath f)))) @
     [file_link f]"

text \<open>The links of a forest together with the links from a parent id to its top nodes.\<close>

definition links_under ::
  "string \<Rightarrow> 'h FileSystemNode list \<Rightarrow> (string \<times> string \<times> string \<times> FileType) list" where
  "links_under p ns = map (\<lambda>c. (p, node_id c, name c, type c)) ns @ links ns"

text \<open>
  The path display as the specification words it: every directory on the stack but the
  first is shown by its local name, the stored id without the prefix made of the id
  before it on the stack and an underscore.
\<close>

definition local_name :: "string \<Rightarrow> string \<Rightarrow> string" where
  "local_name parent i =
     (if take (length parent + 1) i = parent @ ''_'' then drop (length parent + 1) i else i)"

fun local_names :: "string \<Rightarrow> string list \<Rightarrow> string list" where
  "local_names parent [] = []"
| "local_names parent (i # rest) = local_name parent i # local_names i rest"

definition display_spec :: "string list \<Rightarrow> string" where
  "display_spec path =
     (case path of
        [] \<Rightarrow> ''/''
      | r # rest \<Rightarrow> ''/'' @ join ''/'' (r # local_names r rest))"

text \<open>
  What a queued update may add: a node whose id is the parent id, an underscore and the
  node's name, and that brings no links of its own.
\<close>

fun update_ok :: "'h update \<Rightarrow> bool" where
  "update_ok (SetFileSystem_add p n) = (node_id n = p @ ''_'' @ name n \<and> links [n] = [])"
| "update_ok (SetFileSystem_remove i) = True"
| "update_ok (SetOpenTabs_filter i) = True"
| "update_ok SetTermPath_pop = True"
| "update_ok (SetTermPath_push i) = True"

text \<open>Every link of the second state that the first state lacks is a prefixed one.\<close>

definition grows_prefixed :: "'h app_state \<Rightarrow> 'h app_state \<Rightarrow> bool" where
  "grows_prefixed s s' =
     (\<forall>(q, i, nm, ty) \<in> set (links (fileSystem s')) - set (links (fileSystem s)).
        i = q @ ''_'' @ nm)"

subsection \<open>Sample hosts and sessions\<close>

text \<open>A host on which every call is refused.\<close>

definition refusing_host :: "'h host" where
  "refusing_host =
     \<lparr>getDirectoryHandle = (\<lambda>h n. Inl ''NotAllowedError''),
      getFileHandle = (\<lambda>h n. Inl ''NotAllowedError''),
      removeEntry = (\<lambda>h n. Inl ''NotAllowedError''),
      getFileText = (\<lambda>h. Inl ''NotAllowedError'')\<rparr>"

text \<open>A host whose files all hold 600 letters.\<close>

definition long_text_host :: "'h host" where
  "long_text_host =
     \<lparr>getDirectoryHandle = (\<lambda>h n. Inl ''NotAllowedError''),
      getFileHandle = (\<lambda>h n. Inl ''NotAllowedError''),
      removeEntry = (\<lambda>h n. Inl ''NotAllowedError''),
      getFileText = (\<lambda>h. Inr (replicate 600 CHR ''a''))\<rparr>"

text \<open>A session on the tree of a flat file list, at the root, with no tab open.\<close>

definition opened_files :: "input_file list \<Rightarrow> unit app_state" where
  "opened_files fileList =
     \<lparr>fileSystem = processInputFiles fileList, openTabs = [], termPath = [''root'']\<rparr>"

text \<open>A comparator to run the samples with: strings compared by their code units.\<close>

fun codeunit_compare :: "string \<Rightarrow> string \<Rightarrow> int" where
  "codeunit_compare [] [] = 0"
| "codeunit_compare [] (y # ys) = - 1"
| "codeunit_compare (x # xs) [] = 1"
| "codeunit_compare (x # xs) (y # ys) =
     (if (of_char x :: nat) < of_char y then - 1
      else if (of_char y :: nat) < of_char x then 1
      else codeunit_compare xs ys)"

text \<open>
  A session on the tree of a host directory, enumerated with \<open>codeunit_compare\<close>, at
  the root, with no tab open.
\<close>

definition opened_folder :: "hentry \<Rightarrow> hentry app_state" where
  "opened_folder dirHandle =
     \<lparr>fileSystem = openRealFolder codeunit_compare dirHandle, openTabs = [], termPath = [''root'']\<rparr>"

definition notes_txt :: input_file where
  "notes_txt =
     \<lparr>file_name = ''notes.txt'', webkitRelativePath = [], file_text = Some ''hi'',
      object_url = ''blob:1''\<rparr>"

definition big_txt :: input_file where
  "big_txt =
     \<lparr>file_name = ''big.txt'', webkitRelativePath = [],
      file_text = Some (replicate 600 CHR ''a''), object_url = ''blob:1''\<rparr>"

definition host_dir :: hentry where
  "host_dir =
     HEntry ''proj'' ''directory''
       [HEntry ''big.txt'' ''file'' [] False, HEntry ''src'' ''directory'' [] False,
        HEntry ''app.js'' ''file'' [] False] False"

text \<open>Running commands one after the other.\<close>

definition run_commands :: "'h host \<Rightarrow> 'h app_state \<Rightarrow> string list \<Rightarrow> 'h app_state" where
  "run_commands h s cmds = foldl (\<lambda>st c. snd (run_command h st c)) s cmds"

text \<open>
  A session in which a folder \<open>d\<close> holding a file \<open>f.txt\<close> was made from the
  terminal and the file was then opened in a tab (what \<open>handleFileClick\<close> appends to
  \<open>openTabs\<close>).
\<close>

definition session_with_open_file :: "unit app_state" where
  "session_with_open_file =
     (run_commands refusing_host (opened_files [notes_txt])
        [''mkdir d'', ''cd d'', ''touch f.txt'', ''cd ..''])
     \<lparr>openTabs := [\<lparr>tab_id = ''root_d_f.txt'', title = ''f.txt'', isDirty = False\<rparr>]\<rparr>"

text \<open>A file list with an empty style sheet in a folder and a filled one beside the folder.\<close>

definition css_files :: "input_file list" where
  "css_files =
     [\<lparr>file_name = ''style.css'', webkitRelativePath = ''site/css/style.css'',
       file_text = Some [], object_url = ''blob:1''\<rparr>,
      \<lparr>file_name = ''style.css'', webkitRelativePath = ''site/style.css'',
       file_text = Some ''body{}'', object_url = ''blob:2''\<rparr>]"

text \<open>A file list with one file in a folder.\<close>

definition src_files :: "input_file list" where
  "src_files =
     [\<lparr>file_name = ''a.txt'', webkitRelativePath = ''src/a.txt'',
       file_text = Some ''A'', object_url = ''blob:1''\<rparr>]"

text \<open>
  A file list with every kind of path: none, a bare name, a folder named \<open>root\<close>, one
  folder, two folders.
\<close>

definition edge_files :: "input_file list" where
  "edge_files =
     [\<lparr>file_name = ''n.txt'', webkitRelativePath = [],
       file_text = Some ''N'', object_url = ''blob:1''\<rparr>,
      \<lparr>file_name = ''c.txt'', webkitRelativePath = ''c.txt'',
       file_text = Some ''C'', object_url = ''blob:2''\<rparr>,
      \<lparr>file_name = ''d.txt'', webkitRelativePath = ''root/d.txt'',
       file_text = Some ''D'', object_url = ''blob:3''\<rparr>,
      \<lparr>file_name = ''a.txt'', webkitRelativePath = ''src/a.txt'',
       file_text = Some ''A'', object_url = ''blob:4''\<rparr>,
      \<lparr>file_name = ''b.txt'', webkitRelativePath = ''src/sub/b.txt'',
       file_text = Some ''B'', object_url = ''blob:5''\<rparr>]"

text \<open>File lists of a project with a folder whose name has a space in it.\<close>

definition spaced_files :: "input_file list" where
  "spaced_files =
     [\<lparr>file_name = ''my'', webkitRelativePath = ''proj/my'',
       file_text = Some ''secret'', object_url = ''blob:1''\<rparr>,
      \<lparr>file_name = ''a.txt'', webkitRelativePath = ''proj/my folder/a.txt'',
       file_text = Some ''A'', object_url = ''blob:2''\<rparr>]"

definition spaced_folder_only :: "input_file list" where
  "spaced_folder_only =
     [\<lparr>file_name = ''a.txt'', webkitRelativePath = ''proj/my folder/a.txt'',
       file_text = Some ''A'', object_url = ''blob:1''\<rparr>]"

section \<open>Parsing a command line\<close>

lemma split_on_no_sep: "c \<notin> set a \<Longrightarrow> split_on c a = [a]"
  by (induction a) auto

lemma split_on_append_sep: "c \<notin> set w \<Longrightarrow> split_on c (w @ c # a) = w # split_on c a"
  by (induction w) auto

lemma trim_id:
  assumes "s \<noteq> []" and "\<not> is_ws (hd s)" and "\<not> is_ws (last s)"
  shows "trim s = s"
proof -
  have front: "dropWhile is_ws s = s"
    using assms(1,2) by (cases s) auto
  have "rev s \<noteq> []" and "\<not> is_ws (hd (rev s))"
    using assms(1,3) by (simp_all add: hd_rev)
  then have rear: "dropWhile is_ws (rev s) = rev s"
    by (cases "rev s") auto
  show ?thesis
    by (simp add: trim_def front rear)
qed

lemma parse_command:
  assumes "word_arg a" and "c \<noteq> []" and "CHR '' '' \<notin> set c" and "\<not> is_ws (hd c)"
  shows "split_on CHR '' '' (trim (c @ CHR '' '' # a)) = [c, a]"
proof -
  have "trim (c @ CHR '' '' # a) = c @ CHR '' '' # a"
    using assms by (intro trim_id) (auto simp: word_arg_def)
  then show ?thesis
    using assms by (simp add: split_on_append_sep split_on_no_sep word_arg_def)
qed

lemma handle_rm:
  assumes "word_arg a"
  shows "handleTerminalCommand h s (''rm '' @ a) =
           (if currentDirNode s = None then (''Error: Current directory lost.'', [])
            else cmd_rm h (currentDirNode s) (Some a))"
  using parse_command [OF assms, of "''rm''"]
  by (simp add: handleTerminalCommand_def is_ws_def Let_def)

lemma handle_cat:
  assumes "word_arg a"
  shows "handleTerminalCommand h s (''cat '' @ a) =
           (if currentDirNode s = None then (''Error: Current directory lost.'', [])
            else cmd_cat h (currentDirNode s) (Some a))"
  using parse_command [OF assms, of "''cat''"]
  by (simp add: handleTerminalCommand_def is_ws_def Let_def)

lemma handle_mkdir:
  assumes "word_arg a"
  shows "handleTerminalCommand h s (''mkdir '' @ a) =
           (if currentDirNode s = None then (''Error: Current directory lost.'', [])
            else cmd_mkdir h (currentDirNode s) (Some a))"
  using parse_command [OF assms, of "''mkdir''"]
  by (simp add: handleTerminalCommand_def is_ws_def Let_def)

lemma handle_touch:
  assumes "word_arg a"
  shows "handleTerminalCommand h s (''touch '' @ a) =
           (if currentDirNode s = None then (''Error: Current directory lost.'', [])
            else cmd_touch h (currentDirNode s) (Some a))"
  using parse_command [OF assms, of "''touch''"]
  by (simp add: handleTerminalCommand_def is_ws_def Let_def)

lemma handle_code:
  assumes "word_arg a"
  shows "handleTerminalCommand h s (''code '' @ a) =
           (if currentDirNode s = None then (''Error: Current directory lost.'', [])
            else cmd_touch h (currentDirNode s) (Some a))"
  using parse_command [OF assms, of "''code''"]
  by (simp add: handleTerminalCommand_def is_ws_def Let_def)


lemma handle_pwd:
  "handleTerminalCommand h s ''pwd'' =
     (if currentDirNode s = None then (''Error: Current directory lost.'', [])
      else cmd_pwd (termPath s))"
  by (simp add: handleTerminalCommand_def trim_def is_ws_def Let_def)

lemma run_command_no_update:
  "handleTerminalCommand h s cmd = (out, []) \<Longrightarrow> run_command h s cmd = (out, s)"
  by (simp add: run_command_def)

section \<open>Deleting\<close>

text \<open>
  Claim C1. When \<open>rm name\<close> finds \<open>name\<close> among the children of the current
  directory, the current directory has a host handle and the host's \<open>removeEntry\<close>
  throws, the command returns the text \<open>Error deleting from disk: \<close> followed by the
  error, and it queues no state update at all: \<open>removeNodeFromTree\<close> is never
  applied and the whole state (tree, tabs, path) after the command is the state before.
\<close>

theorem rm_native_failure_leaves_tree:
  assumes "word_arg a"
    and "currentDirNode s = Some d"
    and "children d = Some cs"
    and "find (\<lambda>c. name c = a) cs = Some target"
    and "handle d = Some dh"
    and "removeEntry h dh a = Inl e"
  shows "handleTerminalCommand h s (''rm '' @ a) = (''Error deleting from disk: '' @ e, []) \<and>
         run_command h s (''rm '' @ a) = (''Error deleting from disk: '' @ e, s)"
proof -
  have "a \<noteq> []"
    using assms(1) by (simp add: word_arg_def)
  then have "cmd_rm h (Some d) (Some a) = (''Error deleting from disk: '' @ e, [])"
    using assms(3-6) by (simp add: cmd_rm_def)
  then have "handleTerminalCommand h s (''rm '' @ a) = (''Error deleting from disk: '' @ e, [])"
    unfolding handle_rm [OF assms(1)] using assms(2) by simp
  then show ?thesis
    by (simp add: run_command_no_update)
qed

theorem rm_native_failure_leaves_tree_witness:
  "handleTerminalCommand refusing_host (opened_folder host_dir) ''rm src'' =
     (''Error deleting from disk: NotAllowedError'', []) \<and>
   run_command refusing_host (opened_folder host_dir) ''rm src'' =
     (''Error deleting from disk: NotAllowedError'', opened_folder host_dir)"
proof -
  let ?d = "hd (openRealFolder codeunit_compare host_dir)"
  let ?t = "FileSystemNode ''root_src'' ''src'' FOLDER None None (Some []) (Some False)
              (Some ''root'') (Some (HEntry ''src'' ''directory'' [] False))"
  have h1: "word_arg ''src''"
    by (simp add: word_arg_def is_ws_def)
  have h2: "currentDirNode (opened_folder host_dir) = Some ?d"
    by code_simp
  have h3: "children ?d = Some (processDirectoryHandle codeunit_compare host_dir (Some ''root''))"
    by code_simp
  have h4: "find (\<lambda>c. name c = ''src'')
              (processDirectoryHandle codeunit_compare host_dir (Some ''root'')) = Some ?t"
    by code_simp
  have h5: "handle ?d = Some host_dir"
    by code_simp
  have h6: "removeEntry refusing_host host_dir ''src'' = Inl ''NotAllowedError''"
    by (simp add: refusing_host_def)
  from rm_native_failure_leaves_tree [OF h1 h2 h3 h4 h5 h6] show ?thesis
    by simp
qed

lemma rm_success:
  assumes "word_arg a"
    and "currentDirNode s = Some d"
    and "children d = Some cs"
    and "find (\<lambda>c. name c = a) cs = Some target"
    and "handle d = None \<or> (\<exists>dh. handle d = Some dh \<and> removeEntry h dh a = Inr ())"
  shows "run_command h s (''rm '' @ a) =
           ([], s\<lparr>fileSystem := removeNodeFromTree (fileSystem s) (node_id target),
                  openTabs := filter (\<lambda>t. tab_id t \<noteq> node_id target) (openTabs s)\<rparr>)"
proof -
  have "a \<noteq> []"
    using assms(1) by (simp add: word_arg_def)
  then have "cmd_rm h (Some d) (Some a) =
               ([], [SetFileSystem_remove (node_id target), SetOpenTabs_filter (node_id target)])"
    using assms(3-5) by (auto simp: cmd_rm_def)
  then have "handleTerminalCommand h s (''rm '' @ a) =
               ([], [SetFileSystem_remove (node_id target), SetOpenTabs_filter (node_id target)])"
    unfolding handle_rm [OF assms(1)] using assms(2) by simp
  then show ?thesis
    by (simp add: run_command_def)
qed

lemma removeNodeFromTree_drops_id: "i \<notin> set (all_ids (removeNodeFromTree fs i))"
  unfolding all_ids_def
  by (induction fs i rule: removeNodeFromTree.induct) auto

lemma findNode_None: "i \<notin> set (all_ids fs) \<Longrightarrow> findNode fs i = None"
  unfolding all_ids_def
  by (induction fs i rule: findNode.induct) (auto split: option.splits)

text \<open>
  Claim C6. A successful \<open>rm\<close> of a FOLDER removes the folder and its descendants
  from the tree and evicts the ids of all of them from the open tabs. Evaluated here on
  \<open>session_with_open_file\<close>, where the file \<open>root_d_f.txt\<close> inside the folder
  \<open>d\<close> is open in a tab: after \<open>rm d\<close> neither the folder nor the file is found by
  id, and the tab of the file is still in \<open>openTabs\<close>. Only the id of the folder
  itself is filtered out of the tabs (\<open>rm_success\<close>).
\<close>

theorem rm_folder_keeps_descendant_tab:
  "findNode (fileSystem session_with_open_file) ''root_d_f.txt'' \<noteq> None \<and>
   fst (run_command refusing_host session_with_open_file ''rm d'') = [] \<and>
   findNode (fileSystem (snd (run_command refusing_host session_with_open_file ''rm d'')))
     ''root_d'' = None \<and>
   findNode (fileSystem (snd (run_command refusing_host session_with_open_file ''rm d'')))
     ''root_d_f.txt'' = None \<and>
   map tab_id (openTabs (snd (run_command refusing_host session_with_open_file ''rm d''))) =
     [''root_d_f.txt'']"
  by code_simp

section \<open>Reading\<close>

text \<open>
  Claim C10, as stated: for every current directory with a FOLDER named \<open>n\<close> and no
  FILE named \<open>n\<close>, \<open>cat n\<close> returns \<open>File not found: n\<close>. It does not
  when the name is not one word of the command line: in a project with a folder
  \<open>my folder\<close>, the line \<open>cat my folder\<close> is split at the space and the argument
  is \<open>my\<close>. Beside a file \<open>my\<close> the answer is that file's content, and without
  such a file the answer is \<open>File not found: my\<close>.
\<close>

theorem cat_spaced_folder_counterexample:
  "fst (run_command refusing_host
          (run_commands refusing_host (opened_files spaced_files) [''cd proj'']) ''ls'') =
     ''my  [my folder]'' \<and>
   fst (run_command refusing_host
          (run_commands refusing_host (opened_files spaced_files) [''cd proj''])
          (''cat '' @ ''my folder'')) = ''secret'' \<and>
   fst (run_command refusing_host
          (run_commands refusing_host (opened_files spaced_folder_only) [''cd proj'']) ''ls'') =
     ''[my folder]'' \<and>
   fst (run_command refusing_host
          (run_commands refusing_host (opened_files spaced_folder_only) [''cd proj''])
          (''cat '' @ ''my folder'')) = ''File not found: my'' \<and>
   fst (run_command refusing_host
          (run_commands refusing_host (opened_files spaced_folder_only) [''cd proj''])
          (''cat '' @ ''my folder'')) \<noteq> ''File not found: '' @ ''my folder''"
  by code_simp

text \<open>
  Claim C10, amended. When the children of the current directory include a FOLDER named
  \<open>n\<close> and no FILE named \<open>n\<close>, and \<open>n\<close> is one word of the command line (not
  empty, no space in it, no white space at its end), the command \<open>cat n\<close> returns
  exactly \<open>File not found: n\<close> and changes nothing: \<open>cat\<close> looks its argument
  up among the FILE children only.
\<close>

theorem cat_folder_is_not_found:
  assumes "word_arg n"
    and "currentDirNode s = Some d"
    and "children d = Some cs"
    and "\<exists>c \<in> set cs. name c = n \<and> type c = FOLDER"
    and "\<not> (\<exists>c \<in> set cs. name c = n \<and> type c = FILE)"
  shows "handleTerminalCommand h s (''cat '' @ n) = (''File not found: '' @ n, [])"
proof -
  have "find (\<lambda>c. name c = n \<and> type c = FILE) cs = None"
    using assms(5) by (auto simp: find_None_iff)
  moreover have "n \<noteq> []"
    using assms(1) by (simp add: word_arg_def)
  ultimately have "cmd_cat h (Some d) (Some n) = (''File not found: '' @ n, [])"
    using assms(3) by (simp add: cmd_cat_def)
  then show ?thesis
    unfolding handle_cat [OF assms(1)] using assms(2) by simp
qed

theorem cat_folder_is_not_found_witness:
  "handleTerminalCommand long_text_host (opened_folder host_dir) ''cat src'' =
     (''File not found: src'', [])"
proof -
  let ?d = "hd (openRealFolder codeunit_compare host_dir)"
  let ?cs = "processDirectoryHandle codeunit_compare host_dir (Some ''root'')"
  have h1: "word_arg ''src''"
    by (simp add: word_arg_def is_ws_def)
  have h2: "currentDirNode (opened_folder host_dir) = Some ?d"
    by code_simp
  have h3: "children ?d = Some ?cs"
    by code_simp
  have h4: "\<exists>c \<in> set ?cs. name c = ''src'' \<and> type c = FOLDER"
    by code_simp
  have h5: "\<not> (\<exists>c \<in> set ?cs. name c = ''src'' \<and> type c = FILE)"
    by code_simp
  from cat_folder_is_not_found [OF h1 h2 h3 h4 h5] show ?thesis
    by simp
qed

lemma cat_resident_content:
  assumes "word_arg n"
    and "currentDirNode s = Some d"
    and "children d = Some cs"
    and "find (\<lambda>c. name c = n \<and> type c = FILE) cs = Some f"
    and "\<not> isMediaOrBinary (language f)"
    and "content f = Some c"
  shows "handleTerminalCommand h s (''cat '' @ n) =
           (take 500 c @ (if length c > 500 then ''...'' else []), [])"
proof -
  have "n \<noteq> []"
    using assms(1) by (simp add: word_arg_def)
  then have "cmd_cat h (Some d) (Some n) =
               (take 500 c @ (if length c > 500 then ''...'' else []), [])"
    using assms(3-6) by (simp add: cmd_cat_def split: option.splits)
  then show ?thesis
    unfolding handle_cat [OF assms(1)] using assms(2) by simp
qed

lemma cat_lazy_content:
  assumes "word_arg n"
    and "currentDirNode s = Some d"
    and "children d = Some cs"
    and "find (\<lambda>c. name c = n \<and> type c = FILE) cs = Some f"
    and "\<not> isMediaOrBinary (language f)"
    and "content f = None"
    and "handle f = Some fh"
    and "getFileText h fh = Inr t"
  shows "handleTerminalCommand h s (''cat '' @ n) = (take 500 t, [])"
proof -
  have "n \<noteq> []"
    using assms(1) by (simp add: word_arg_def)
  then have "cmd_cat h (Some d) (Some n) = (take 500 t, [])"
    using assms(3-8) by (simp add: cmd_cat_def)
  then show ?thesis
    unfolding handle_cat [OF assms(1)] using assms(2) by simp
qed

text \<open>
  Claim C5. \<open>cat\<close> on a text file returns the first 500 characters and appends
  \<open>...\<close> exactly when the content is longer, also when the content is read from the
  host on demand. The resident path does so (\<open>cat_resident_content\<close>); the on-demand
  path returns \<open>t.substring(0, 500)\<close> and nothing more
  (\<open>cat_lazy_content\<close>). Evaluated here: a freshly opened host folder, whose file
  \<open>big.txt\<close> has no resident content, on a host where the file holds 600 letters.
  The answer is the first 500 letters with no \<open>...\<close> after them; for the same
  600 letters resident in the node the answer ends in \<open>...\<close>.
\<close>

theorem cat_lazy_long_file_has_no_ellipsis:
  "getFileText long_text_host (HEntry ''big.txt'' ''file'' [] False) = Inr (replicate 600 CHR ''a'') \<and>
   fst (run_command long_text_host (opened_folder host_dir) ''cat big.txt'') =
     replicate 500 CHR ''a'' \<and>
   fst (run_command long_text_host (opened_folder host_dir) ''cat big.txt'') \<noteq>
     replicate 500 CHR ''a'' @ ''...'' \<and>
   fst (run_command refusing_host (opened_files [big_txt]) ''cat big.txt'') =
     replicate 500 CHR ''a'' @ ''...''"
  by code_simp

text \<open>
  Claim C9. \<open>getFileContent\<close> returns the content of the first node of that name in
  depth-first order, so the empty string when that node's content is empty. Evaluated
  here on the tree that the flat ingestion builds from \<open>css_files\<close>: the first
  \<open>style.css\<close> in depth-first order lies in a sub-folder and is empty, and the
  function returns the content of the second one, because the caller of the recursive
  search tests its result for truthiness and the empty string is falsy.
\<close>

theorem getFileContent_skips_empty_first_match:
  "map_option content
     (find (\<lambda>n. name n = ''style.css'')
        (nodes_dfs (processInputFiles css_files :: unit FileSystemNode list))) = Some (Some []) \<and>
   getFileContent (processInputFiles css_files :: unit FileSystemNode list) ''style.css'' = ''body{}''"
  by code_simp

section \<open>Creating\<close>

text \<open>
  Claim C2. After any sequence of \<open>mkdir\<close>, \<open>touch\<close>, \<open>code\<close> and \<open>rm\<close>
  the ids of the tree are pairwise distinct. Evaluated here: in a session with distinct
  ids, \<open>mkdir x\<close> twice leaves two children of the root with the id \<open>root_x\<close>;
  neither command looks for an existing child of that name.
\<close>

theorem mkdir_twice_repeats_id:
  "distinct (all_ids (fileSystem (opened_files [notes_txt]))) \<and>
   all_ids (fileSystem (run_commands refusing_host (opened_files [notes_txt])
                          [''mkdir x'', ''mkdir x''])) =
     [''root'', ''notes.txt'', ''root_x'', ''root_x''] \<and>
   \<not> distinct (all_ids (fileSystem (run_commands refusing_host (opened_files [notes_txt])
                                      [''mkdir x'', ''mkdir x''])))"
  by code_simp

lemma create_without_handle:
  assumes "word_arg a"
    and "currentDirNode s = Some d"
    and "handle d = None"
  shows "run_command h s (''mkdir '' @ a) =
           (''Virtual directory '' @ [CHR 0x27] @ a @ [CHR 0x27] @ '' created.'',
            s\<lparr>fileSystem := addNodeToTree (fileSystem s) (node_id d)
                 (FileSystemNode (node_id d @ ''_'' @ a) a FOLDER None None (Some [])
                    (Some False) (Some (node_id d)) None)\<rparr>)"
    and "run_command h s (''touch '' @ a) =
           (''Virtual file '' @ [CHR 0x27] @ a @ [CHR 0x27] @ '' created.'',
            s\<lparr>fileSystem := addNodeToTree (fileSystem s) (node_id d)
                 (FileSystemNode (node_id d @ ''_'' @ a) a FILE (Some [])
                    (Some (getLanguageFromExtension a)) None None (Some (node_id d)) None)\<rparr>)"
proof -
  have ne: "a \<noteq> []"
    using assms(1) by (simp add: word_arg_def)
  have mk: "handleTerminalCommand h s (''mkdir '' @ a) = cmd_mkdir h (Some d) (Some a)"
    unfolding handle_mkdir [OF assms(1)] using assms(2) by simp
  have to: "handleTerminalCommand h s (''touch '' @ a) = cmd_touch h (Some d) (Some a)"
    unfolding handle_touch [OF assms(1)] using assms(2) by simp
  show "run_command h s (''mkdir '' @ a) =
           (''Virtual directory '' @ [CHR 0x27] @ a @ [CHR 0x27] @ '' created.'',
            s\<lparr>fileSystem := addNodeToTree (fileSystem s) (node_id d)
                 (FileSystemNode (node_id d @ ''_'' @ a) a FOLDER None None (Some [])
                    (Some False) (Some (node_id d)) None)\<rparr>)"
    unfolding run_command_def mk using ne assms(3) by (simp add: cmd_mkdir_def)
  show "run_command h s (''touch '' @ a) =
           (''Virtual file '' @ [CHR 0x27] @ a @ [CHR 0x27] @ '' created.'',
            s\<lparr>fileSystem := addNodeToTree (fileSystem s) (node_id d)
                 (FileSystemNode (node_id d @ ''_'' @ a) a FILE (Some [])
                    (Some (getLanguageFromExtension a)) None None (Some (node_id d)) None)\<rparr>)"
    unfolding run_command_def to using ne assms(3) by (simp add: cmd_touch_def)
qed

text \<open>
  Claim C4, as stated: when the current directory has a host handle and the host's
  create call throws, the command falls back to a virtual node. It does not: in a
  freshly opened host folder on a host that refuses every call, \<open>mkdir x\<close> and
  \<open>touch x\<close> return the error text and the state after them is the state before.
\<close>

theorem native_create_failure_counterexample:
  "run_command refusing_host (opened_folder host_dir) ''mkdir x'' =
     (''Error creating directory on disk: NotAllowedError'', opened_folder host_dir) \<and>
   run_command refusing_host (opened_folder host_dir) ''touch x'' =
     (''Error creating file on disk: NotAllowedError'', opened_folder host_dir) \<and>
   findNode (fileSystem (snd (run_command refusing_host (opened_folder host_dir) ''mkdir x'')))
     ''root_x'' = None"
  by code_simp

text \<open>
  Claim C4, amended. When the current directory has a host handle and the host's create
  call throws, \<open>mkdir\<close> returns \<open>Error creating directory on disk: \<close> followed by the
  error, \<open>touch\<close> and \<open>code\<close> return \<open>Error creating file on disk: \<close> followed by
  the error, and the state is left as it was: no node is created. (A virtual node is
  what the commands create when the current directory has no handle,
  \<open>create_without_handle\<close>.)
\<close>

theorem native_create_failure_returns_error:
  assumes "word_arg a"
    and "currentDirNode s = Some d"
    and "handle d = Some dh"
  shows "(getDirectoryHandle h dh a = Inl e \<longrightarrow>
            run_command h s (''mkdir '' @ a) = (''Error creating directory on disk: '' @ e, s)) \<and>
         (getFileHandle h dh a = Inl e \<longrightarrow>
            run_command h s (''touch '' @ a) = (''Error creating file on disk: '' @ e, s) \<and>
            run_command h s (''code '' @ a) = (''Error creating file on disk: '' @ e, s))"
proof -
  have ne: "a \<noteq> []"
    using assms(1) by (simp add: word_arg_def)
  have mk: "handleTerminalCommand h s (''mkdir '' @ a) = cmd_mkdir h (Some d) (Some a)"
    unfolding handle_mkdir [OF assms(1)] using assms(2) by simp
  have to: "handleTerminalCommand h s (''touch '' @ a) = cmd_touch h (Some d) (Some a)"
    unfolding handle_touch [OF assms(1)] using assms(2) by simp
  have co: "handleTerminalCommand h s (''code '' @ a) = cmd_touch h (Some d) (Some a)"
    unfolding handle_code [OF assms(1)] using assms(2) by simp
  have "getDirectoryHandle h dh a = Inl e \<Longrightarrow>
          cmd_mkdir h (Some d) (Some a) = (''Error creating directory on disk: '' @ e, [])"
    using ne assms(3) by (simp add: cmd_mkdir_def)
  moreover have "getFileHandle h dh a = Inl e \<Longrightarrow>
          cmd_touch h (Some d) (Some a) = (''Error creating file on disk: '' @ e, [])"
    using ne assms(3) by (simp add: cmd_touch_def)
  ultimately show ?thesis
    unfolding run_command_def mk to co by simp
qed

theorem native_create_failure_returns_error_witness:
  "run_command refusing_host (opened_folder host_dir) ''mkdir docs'' =
     (''Error creating directory on disk: NotAllowedError'', opened_folder host_dir) \<and>
   run_command refusing_host (opened_folder host_dir) ''touch docs'' =
     (''Error creating file on disk: NotAllowedError'', opened_folder host_dir) \<and>
   run_command refusing_host (opened_folder host_dir) ''code docs'' =
     (''Error creating file on disk: NotAllowedError'', opened_folder host_dir)"
proof -
  let ?d = "hd (openRealFolder codeunit_compare host_dir)"
  have h1: "word_arg ''docs''"
    by (simp add: word_arg_def is_ws_def)
  have h2: "currentDirNode (opened_folder host_dir) = Some ?d"
    by code_simp
  have h3: "handle ?d = Some host_dir"
    by code_simp
  have f1: "getDirectoryHandle refusing_host host_dir ''docs'' = Inl ''NotAllowedError''"
    by (simp add: refusing_host_def)
  have f2: "getFileHandle refusing_host host_dir ''docs'' = Inl ''NotAllowedError''"
    by (simp add: refusing_host_def)
  from native_create_failure_returns_error
         [OF h1 h2 h3, of refusing_host "''NotAllowedError''"] f1 f2
  show ?thesis
    by simp
qed

section \<open>The sort of the native enumeration\<close>

lemma set_insert_by: "set (insert_by cmp x xs) = insert x (set xs)"
  by (induction xs) auto

lemma set_sort_by: "set (sort_by cmp xs) = set xs"
  unfolding sort_by_def by (induction xs) (simp_all add: set_insert_by)














section \<open>Listing and the path\<close>




text \<open>
  Claim C7, as stated: \<open>pwd\<close> shows the local names of the directories on the stack,
  the stored ids with the parent prefix stripped. It does not: after \<open>mkdir src\<close>
  and \<open>cd src\<close> from the root the answer is \<open>/root/root_src\<close>, where the display
  of the specification is \<open>/root/src\<close>.
\<close>

theorem pwd_local_names_counterexample:
  "fst (run_command refusing_host
          (run_commands refusing_host (opened_files [notes_txt]) [''mkdir src'', ''cd src''])
          ''pwd'') = ''/root/root_src'' \<and>
   display_spec (termPath
          (run_commands refusing_host (opened_files [notes_txt]) [''mkdir src'', ''cd src''])) =
     ''/root/src'' \<and>
   fst (run_command refusing_host
          (run_commands refusing_host (opened_files [notes_txt]) [''mkdir src'', ''cd src''])
          ''pwd'') \<noteq>
   display_spec (termPath
          (run_commands refusing_host (opened_files [notes_txt]) [''mkdir src'', ''cd src'']))"
  by code_simp

text \<open>
  Claim C7, amended. When the current directory resolves, \<open>pwd\<close> returns a slash
  followed by the stored ids on the working-directory stack joined by slashes, as they
  are (no prefix is stripped), and changes nothing.
\<close>

theorem pwd_joins_stored_ids:
  assumes "currentDirNode s = Some d"
  shows "handleTerminalCommand h s ''pwd'' = (''/'' @ join ''/'' (termPath s), [])"
  using assms by (simp add: handle_pwd cmd_pwd_def)

theorem pwd_joins_stored_ids_witness:
  "handleTerminalCommand refusing_host
     (run_commands refusing_host (opened_files [notes_txt]) [''mkdir src'', ''cd src''])
     ''pwd'' = (''/root/root_src'', [])"
proof -
  let ?s = "run_commands refusing_host (opened_files [notes_txt]) [''mkdir src'', ''cd src'']"
  let ?d = "FileSystemNode ''root_src'' ''src'' FOLDER None None (Some []) (Some False)
              (Some ''root'') (None :: unit option)"
  have h1: "currentDirNode ?s = Some ?d"
    by code_simp
  have p: "termPath ?s = [''root'', ''root_src'']"
    by code_simp
  from pwd_joins_stored_ids [OF h1, of refusing_host] show ?thesis
    by (simp add: p)
qed

section \<open>The ids of created nodes\<close>

subsection \<open>Native enumeration\<close>

lemma tree_ok_iff:
  "tree_ok R p n =
     (R p (node_id n) (name n) (type n) \<and>
      (case children n of None \<Rightarrow> True | Some cs \<Rightarrow> (\<forall>c \<in> set cs. tree_ok R (node_id n) c)))"
  by (cases n) (simp split: option.split)

lemma links_append: "links (xs @ ys) = links xs @ links ys"
  by (induction xs rule: links.induct) simp_all

lemma links_tree_ok:
  "\<forall>c \<in> set ns. tree_ok R p c \<Longrightarrow> \<forall>(q, i, nm, ty) \<in> set (links ns). R q i nm ty"
proof (induction ns arbitrary: p rule: links.induct)
  case 1
  then show ?case by simp
next
  case (2 nid nm ty co la ope pa ha ns)
  show ?case
    using "2.IH" [of p] "2.prems" by simp
next
  case (3 nid nm ty co la cs ope pa ha ns)
  have below: "\<forall>c \<in> set cs. tree_ok R nid c"
    using "3.prems" by simp
  have "\<forall>(q, i, nm, ty) \<in> set (links cs). R q i nm ty"
    using "3.IH"(1) below by blast
  moreover have "\<forall>(q, i, nm, ty) \<in> set (links ns). R q i nm ty"
    using "3.IH"(2) [of p] "3.prems" by simp
  moreover have "\<forall>c \<in> set cs. R nid (node_id c) (name c) (type c)"
    using below by (auto simp: tree_ok_iff)
  ultimately show ?case
    by auto
qed

lemma entry_id_prefixed: "p \<noteq> [] \<Longrightarrow> entry_id (Some p) nm = p @ ''_'' @ nm"
  by (simp add: entry_id_def)

lemma processDirectoryHandle_prefixed:
  "p \<noteq> [] \<Longrightarrow> c \<in> set (processDirectoryHandle lc d (Some p)) \<Longrightarrow> tree_ok prefixed_id p c"
proof (induction lc d "Some p" arbitrary: p c rule: processDirectoryHandle.induct)
  case (1 lc dnm dkind entries fails)
  from "1.prems"(2) have nf: "\<not> fails"
    by (auto split: if_splits)
  from "1.prems"(2) nf obtain entry where e: "entry \<in> set entries"
    and c: "(entry_kind entry = ''file'' \<and>
             c = FileSystemNode (entry_id (Some p) (entry_name entry)) (entry_name entry) FILE
                   None (Some (getLanguageFromExtension (entry_name entry))) None None
                   (Some p) (Some entry)) \<or>
            (entry_kind entry \<noteq> ''file'' \<and> entry_kind entry = ''directory'' \<and>
             c = FileSystemNode (entry_id (Some p) (entry_name entry)) (entry_name entry) FOLDER
                   None None
                   (Some (processDirectoryHandle lc entry
                            (Some (entry_id (Some p) (entry_name entry)))))
                   (Some False) (Some p) (Some entry))"
    by (auto simp: set_sort_by split: if_splits)
  from c show ?case
  proof
    assume "entry_kind entry = ''file'' \<and>
             c = FileSystemNode (entry_id (Some p) (entry_name entry)) (entry_name entry) FILE
                   None (Some (getLanguageFromExtension (entry_name entry))) None None
                   (Some p) (Some entry)"
    then show ?thesis
      using "1.prems"(1) by (simp add: entry_id_prefixed prefixed_id_def)
  next
    assume d: "entry_kind entry \<noteq> ''file'' \<and> entry_kind entry = ''directory'' \<and>
             c = FileSystemNode (entry_id (Some p) (entry_name entry)) (entry_name entry) FOLDER
                   None None
                   (Some (processDirectoryHandle lc entry
                            (Some (entry_id (Some p) (entry_name entry)))))
                   (Some False) (Some p) (Some entry)"
    have "entry_id (Some p) (entry_name entry) \<noteq> []"
      using "1.prems"(1) by (simp add: entry_id_prefixed)
    then have "\<forall>k \<in> set (processDirectoryHandle lc entry
                            (Some (entry_id (Some p) (entry_name entry)))).
                 tree_ok prefixed_id (entry_id (Some p) (entry_name entry)) k"
      using "1.hyps" [OF nf e] d by blast
    then show ?thesis
      using d "1.prems"(1) by (simp add: entry_id_prefixed prefixed_id_def)
  qed
qed

lemma openRealFolder_prefixed:
  "\<forall>(q, i, nm, ty) \<in> set (links (openRealFolder lc d)). i = q @ ''_'' @ nm"
proof -
  let ?cs = "processDirectoryHandle lc d (Some ''root'')"
  have below: "\<forall>c \<in> set ?cs. tree_ok prefixed_id ''root'' c"
    using processDirectoryHandle_prefixed [of "''root''"] by simp
  then have "\<forall>(q, i, nm, ty) \<in> set (links ?cs). prefixed_id q i nm ty"
    by (rule links_tree_ok)
  moreover have "\<forall>c \<in> set ?cs. prefixed_id ''root'' (node_id c) (name c) (type c)"
    using below by (auto simp: tree_ok_iff)
  ultimately show ?thesis
    by (auto simp: openRealFolder_def prefixed_id_def)
qed

subsection \<open>Flat file list\<close>

lemma tree_ok_set_children:
  "R p (node_id n) (name n) (type n) \<Longrightarrow> \<forall>c \<in> set cs. tree_ok R (node_id n) c \<Longrightarrow>
   tree_ok R p (set_children n (Some cs))"
  by (simp add: set_children_def)

lemma tree_ok_children:
  "tree_ok R p n \<Longrightarrow> c \<in> set (case children n of None \<Rightarrow> [] | Some cs \<Rightarrow> cs) \<Longrightarrow>
   tree_ok R (node_id n) c"
  by (cases n) (auto split: option.splits)

lemma tree_ok_rule: "tree_ok R p n \<Longrightarrow> R p (node_id n) (name n) (type n)"
  by (cases n) simp

lemma getOrCreateFolder_index:
  "getOrCreateFolder ns nm p = (ns', k) \<Longrightarrow> k < length ns'"
  by (induction ns arbitrary: ns' k) (auto split: if_splits prod.splits)

lemma getOrCreateFolder_flat:
  "getOrCreateFolder ns nm p = (ns', k) \<Longrightarrow> \<forall>c \<in> set ns. tree_ok flat_id p c \<Longrightarrow>
   \<forall>c \<in> set ns'. tree_ok flat_id p c"
  by (induction ns arbitrary: ns' k) (auto simp: flat_id_def split: if_splits prod.splits)

lemma place_file_flat:
  assumes "\<And>q. tree_ok flat_id q (mk q)"
  shows "\<forall>c \<in> set ns. tree_ok flat_id p c \<Longrightarrow>
         \<forall>c \<in> set (place_file ns p parts mk). tree_ok flat_id p c"
proof (induction parts arbitrary: ns p)
  case Nil
  then show ?case
    using assms by simp
next
  case (Cons folderName rest)
  obtain ns' k where g: "getOrCreateFolder ns folderName p = (ns', k)"
    by (cases "getOrCreateFolder ns folderName p")
  let ?folder = "ns' ! k"
  let ?cs = "case children ?folder of None \<Rightarrow> [] | Some cs \<Rightarrow> cs"
  have all': "\<forall>c \<in> set ns'. tree_ok flat_id p c"
    using getOrCreateFolder_flat [OF g Cons.prems] .
  have "k < length ns'"
    using g by (rule getOrCreateFolder_index)
  then have folder: "tree_ok flat_id p ?folder"
    using all' by simp
  then have "\<forall>c \<in> set ?cs. tree_ok flat_id (node_id ?folder) c"
    by (blast intro: tree_ok_children)
  then have placed: "\<forall>c \<in> set (place_file ?cs (node_id ?folder) rest mk).
               tree_ok flat_id (node_id ?folder) c"
    by (rule Cons.IH)
  have "tree_ok flat_id p
               (set_children ?folder (Some (place_file ?cs (node_id ?folder) rest mk)))"
    using tree_ok_rule [OF folder] placed by (rule tree_ok_set_children)
  then have "\<forall>c \<in> set (ns'[k := set_children ?folder
                                     (Some (place_file ?cs (node_id ?folder) rest mk))]).
               tree_ok flat_id p c"
    using all' set_update_subset_insert [of ns' k] by blast
  then show ?case
    using g by (simp add: Let_def)
qed

lemma add_input_file_flat:
  assumes "\<forall>c \<in> set ns. tree_ok flat_id ''root'' c"
  shows "\<forall>c \<in> set (add_input_file ns f). tree_ok flat_id ''root'' c"
proof (cases "webkitRelativePath f = []")
  case True
  then show ?thesis
    using assms by (simp add: add_input_file_def Let_def flat_id_def)
next
  case False
  let ?lang = "getLanguageFromExtension (file_name f)"
  let ?parts = "split_on CHR ''/'' (webkitRelativePath f)"
  let ?mk = "\<lambda>currentParentId.
               FileSystemNode (currentParentId @ ''_'' @ last ?parts) (last ?parts) FILE
                 (Some (input_content f ?lang)) (Some ?lang) None None
                 (Some currentParentId) None"
  have "\<And>q. tree_ok flat_id q (?mk q)"
    by (simp add: flat_id_def)
  then have "\<forall>c \<in> set (place_file ns ''root'' (butlast ?parts) ?mk). tree_ok flat_id ''root'' c"
    using assms by (rule place_file_flat)
  then show ?thesis
    using False by (simp add: add_input_file_def Let_def)
qed

lemma foldl_add_input_file_flat:
  "\<forall>c \<in> set ns. tree_ok flat_id ''root'' c \<Longrightarrow>
   \<forall>c \<in> set (foldl add_input_file ns fileList). tree_ok flat_id ''root'' c"
proof (induction fileList arbitrary: ns)
  case Nil
  then show ?case by simp
next
  case (Cons f fileList)
  have "\<forall>c \<in> set (add_input_file ns f). tree_ok flat_id ''root'' c"
    using Cons.prems by (rule add_input_file_flat)
  then show ?case
    using Cons.IH by simp
qed

lemma processInputFiles_flat:
  "\<forall>(q, i, nm, ty) \<in> set (links (processInputFiles fileList)). flat_id q i nm ty"
proof -
  let ?cs = "foldl add_input_file [] fileList"
  have below: "\<forall>c \<in> set ?cs. tree_ok flat_id ''root'' c"
    by (rule foldl_add_input_file_flat) simp
  then have "\<forall>(q, i, nm, ty) \<in> set (links ?cs). flat_id q i nm ty"
    by (rule links_tree_ok)
  moreover have "\<forall>c \<in> set ?cs. flat_id ''root'' (node_id c) (name c) (type c)"
    using below by (auto simp: tree_ok_iff)
  ultimately show ?thesis
    by (auto simp: processInputFiles_def)
qed

subsection \<open>The links of the flat file list\<close>

lemma links_single:
  "set (links [n]) =
     set (links_under (node_id n) (case children n of None \<Rightarrow> [] | Some cs \<Rightarrow> cs))"
  by (cases n) (simp add: links_under_def split: option.split)

lemma links_Cons_set: "set (links (n # ns)) = set (links [n]) \<union> set (links ns)"
  using links_append [of "[n]" ns] by simp

lemma links_under_Cons:
  "set (links_under p (n # ns)) =
     {(p, node_id n, name n, type n)} \<union> set (links [n]) \<union> set (links_under p ns)"
  unfolding links_under_def using links_Cons_set [of n ns] by auto

lemma links_under_snoc:
  "set (links_under p (ns @ [n])) =
     set (links_under p ns) \<union> {(p, node_id n, name n, type n)} \<union> set (links [n])"
  unfolding links_under_def by (auto simp: links_append)

lemma flat_folder_id: "tree_ok flat_id p n \<Longrightarrow> type n = FOLDER \<Longrightarrow> node_id n = folder_id p (name n)"
  by (cases n) (simp add: flat_id_def folder_id_def)

lemma getOrCreateFolder_result:
  "getOrCreateFolder ns nm p = (ns', k) \<Longrightarrow>
   name (ns' ! k) = nm \<and> type (ns' ! k) = FOLDER"
  by (induction ns arbitrary: ns' k) (auto split: if_splits prod.splits)

lemma getOrCreateFolder_links:
  assumes "getOrCreateFolder ns nm p = (ns', k)"
    and "\<forall>c \<in> set ns. tree_ok flat_id p c"
  shows "set (links_under p ns') = set (links_under p ns) \<union> {(p, folder_id p nm, nm, FOLDER)}"
  using assms
proof (induction ns arbitrary: ns' k)
  case Nil
  then show ?case
    by (auto simp: links_under_def folder_id_def)
next
  case (Cons n ns)
  show ?case
  proof (cases "name n = nm \<and> type n = FOLDER")
    case True
    then have same: "ns' = n # ns"
      using Cons.prems(1) by simp
    have "node_id n = folder_id p nm"
      using flat_folder_id [of p n] Cons.prems(2) True by simp
    then have "(p, folder_id p nm, nm, FOLDER) \<in> set (links_under p (n # ns))"
      using True by (simp add: links_under_Cons)
    then show ?thesis
      unfolding same by blast
  next
    case False
    obtain ms j where g: "getOrCreateFolder ns nm p = (ms, j)"
      by (cases "getOrCreateFolder ns nm p")
    then have shape: "ns' = n # ms"
      using Cons.prems(1) False by auto
    have "set (links_under p ms) = set (links_under p ns) \<union> {(p, folder_id p nm, nm, FOLDER)}"
      using Cons.IH [OF g] Cons.prems(2) by simp
    then show ?thesis
      unfolding shape links_under_Cons by blast
  qed
qed

lemma links_under_update:
  assumes "k < length ns"
    and "set (links_under (node_id (ns ! k)) cs') =
         set (links_under (node_id (ns ! k))
                (case children (ns ! k) of None \<Rightarrow> [] | Some cs \<Rightarrow> cs)) \<union> N"
  shows "set (links_under p (ns[k := set_children (ns ! k) (Some cs')])) =
         set (links_under p ns) \<union> N"
  using assms
proof (induction ns arbitrary: k)
  case Nil
  then show ?case by simp
next
  case (Cons n ns)
  show ?case
  proof (cases k)
    case 0
    have "set (links [set_children n (Some cs')]) = set (links_under (node_id n) cs')"
      by (simp add: set_children_def links_under_def)
    then have "set (links [set_children n (Some cs')]) = set (links [n]) \<union> N"
      using Cons.prems(2) 0 by (simp add: links_single)
    moreover have "node_id (set_children n (Some cs')) = node_id n"
      and "name (set_children n (Some cs')) = name n"
      and "type (set_children n (Some cs')) = type n"
      by (simp_all add: set_children_def)
    ultimately show ?thesis
      using 0 by (simp add: links_under_Cons Un_ac)
  next
    case (Suc j)
    have "set (links_under p (ns[j := set_children (ns ! j) (Some cs')])) =
          set (links_under p ns) \<union> N"
      using Cons.IH [of j] Cons.prems Suc by simp
    then show ?thesis
      using Suc by (simp add: links_under_Cons Un_ac)
  qed
qed

lemma place_file_links:
  assumes mk_leaf: "\<And>q. links [mk q] = []"
    and mk_ok: "\<And>q. tree_ok flat_id q (mk q)"
  shows "\<forall>c \<in> set ns. tree_ok flat_id p c \<Longrightarrow>
         set (links_under p (place_file ns p parts mk)) =
           set (links_under p ns) \<union> set (path_links p parts) \<union>
           {(path_end p parts, node_id (mk (path_end p parts)), name (mk (path_end p parts)),
             type (mk (path_end p parts)))}"
proof (induction parts arbitrary: ns p)
  case Nil
  then show ?case
    by (simp add: links_under_snoc mk_leaf)
next
  case (Cons folderName rest)
  obtain ns' k where g: "getOrCreateFolder ns folderName p = (ns', k)"
    by (cases "getOrCreateFolder ns folderName p")
  let ?folder = "ns' ! k"
  let ?cs = "case children ?folder of None \<Rightarrow> [] | Some cs \<Rightarrow> cs"
  let ?q = "folder_id p folderName"
  let ?N = "set (path_links ?q rest) \<union>
            {(path_end ?q rest, node_id (mk (path_end ?q rest)), name (mk (path_end ?q rest)),
              type (mk (path_end ?q rest)))}"
  have all': "\<forall>c \<in> set ns'. tree_ok flat_id p c"
    using getOrCreateFolder_flat [OF g Cons.prems] .
  have k: "k < length ns'"
    using g by (rule getOrCreateFolder_index)
  then have folder: "tree_ok flat_id p ?folder"
    using all' by simp
  have q: "node_id ?folder = ?q"
    using flat_folder_id [OF folder] getOrCreateFolder_result [OF g] by simp
  have "\<forall>c \<in> set ?cs. tree_ok flat_id (node_id ?folder) c"
    using folder by (blast intro: tree_ok_children)
  then have "set (links_under (node_id ?folder) (place_file ?cs (node_id ?folder) rest mk)) =
             set (links_under (node_id ?folder) ?cs) \<union> ?N"
    using Cons.IH [of ?cs "node_id ?folder"] unfolding q by (simp add: Un_assoc)
  then have "set (links_under p (ns'[k := set_children ?folder
                (Some (place_file ?cs (node_id ?folder) rest mk))])) =
             set (links_under p ns') \<union> ?N"
    using k by (rule links_under_update [rotated])
  moreover have "set (links_under p ns') =
                 set (links_under p ns) \<union> {(p, ?q, folderName, FOLDER)}"
    using g Cons.prems by (rule getOrCreateFolder_links)
  ultimately have "set (links_under p (ns'[k := set_children ?folder
                (Some (place_file ?cs (node_id ?folder) rest mk))])) =
             set (links_under p ns) \<union> {(p, ?q, folderName, FOLDER)} \<union> ?N"
    by simp
  moreover have "place_file ns p (folderName # rest) mk =
                 ns'[k := set_children ?folder (Some (place_file ?cs (node_id ?folder) rest mk))]"
    using g by (simp add: Let_def)
  ultimately show ?case
    by (simp add: Un_ac)
qed

lemma add_input_file_links:
  assumes "\<forall>c \<in> set ns. tree_ok flat_id ''root'' c"
  shows "set (links_under ''root'' (add_input_file ns f)) =
         set (links_under ''root'' ns) \<union> set (file_links f)"
proof (cases "webkitRelativePath f = []")
  case True
  then show ?thesis
    by (simp add: add_input_file_def Let_def file_links_def file_link_def links_under_snoc)
next
  case False
  let ?lang = "getLanguageFromExtension (file_name f)"
  let ?parts = "split_on CHR ''/'' (webkitRelativePath f)"
  let ?mk = "\<lambda>currentParentId.
               FileSystemNode (currentParentId @ ''_'' @ last ?parts) (last ?parts) FILE
                 (Some (input_content f ?lang)) (Some ?lang) None None
                 (Some currentParentId) (None :: 'a option)"
  have leaf: "\<And>q. links [?mk q] = []"
    by simp
  have ok: "\<And>q. tree_ok flat_id q (?mk q)"
    by (simp add: flat_id_def)
  have "set (links_under ''root'' (place_file ns ''root'' (butlast ?parts) ?mk)) =
          set (links_under ''root'' ns) \<union> set (path_links ''root'' (butlast ?parts)) \<union>
          {(path_end ''root'' (butlast ?parts), node_id (?mk (path_end ''root'' (butlast ?parts))),
            name (?mk (path_end ''root'' (butlast ?parts))),
            type (?mk (path_end ''root'' (butlast ?parts))))}"
    using leaf ok assms by (rule place_file_links)
  then show ?thesis
    using False by (simp add: add_input_file_def Let_def file_links_def file_link_def Un_ac)
qed

lemma foldl_add_input_file_links:
  "\<forall>c \<in> set ns. tree_ok flat_id ''root'' c \<Longrightarrow>
   set (links_under ''root'' (foldl add_input_file ns fileList)) =
   set (links_under ''root'' ns) \<union> set (concat (map file_links fileList))"
proof (induction fileList arbitrary: ns)
  case Nil
  then show ?case by simp
next
  case (Cons f fileList)
  have "\<forall>c \<in> set (add_input_file ns f). tree_ok flat_id ''root'' c"
    using Cons.prems by (rule add_input_file_flat)
  then have "set (links_under ''root'' (foldl add_input_file (add_input_file ns f) fileList)) =
             set (links_under ''root'' (add_input_file ns f)) \<union>
             set (concat (map file_links fileList))"
    by (rule Cons.IH)
  then show ?case
    using add_input_file_links [OF Cons.prems, of f] by (simp add: Un_ac)
qed

lemma processInputFiles_links:
  "set (links (processInputFiles fileList :: 'h FileSystemNode list)) =
   set (concat (map file_links fileList))"
proof -
  have "links (processInputFiles fileList :: 'h FileSystemNode list) =
        links_under ''root'' (foldl add_input_file ([] :: 'h FileSystemNode list) fileList)"
    by (simp add: processInputFiles_def links_under_def)
  then show ?thesis
    using foldl_add_input_file_links [of "[] :: 'h FileSystemNode list" fileList]
    by (simp add: links_under_def)
qed

lemma path_links_folder: "(q, i, nm, ty) \<in> set (path_links p parts) \<Longrightarrow> ty = FOLDER"
  by (induction p parts rule: path_links.induct) auto

lemma processInputFiles_file_links:
  assumes "(q, i, nm, FILE) \<in> set (links (processInputFiles fileList :: 'h FileSystemNode list))"
  shows "(q, i, nm, FILE) \<in> file_link ` set fileList"
proof -
  have "(q, i, nm, FILE) \<in> set (concat (map file_links fileList))"
    using assms processInputFiles_links [of fileList, where ?'h = 'h] by simp
  then obtain f where f: "f \<in> set fileList" and "(q, i, nm, FILE) \<in> set (file_links f)"
    by auto
  then have "(q, i, nm, FILE) = file_link f"
    using path_links_folder [of q i nm FILE] by (auto simp: file_links_def split: if_splits)
  then show ?thesis
    using f by blast
qed

subsection \<open>Terminal commands\<close>

lemma addNodeToTree_keys:
  "map (\<lambda>c. (k, node_id c, name c, type c)) (addNodeToTree cs p n) =
   map (\<lambda>c. (k, node_id c, name c, type c)) cs"
  by (induction cs p n rule: addNodeToTree.induct) simp_all

lemma links_addNodeToTree:
  "set (links (addNodeToTree fs p n)) \<subseteq>
     set (links fs) \<union> {(p, node_id n, name n, type n)} \<union> set (links [n])"
proof (induction fs p n rule: addNodeToTree.induct)
  case (1 parent newNode)
  then show ?case by simp
next
  case (2 nid nm ty co la ope pa ha ns parent newNode)
  let ?U = "{(parent, node_id newNode, name newNode, type newNode)} \<union> set (links [newNode])"
  have rest: "set (links (addNodeToTree ns parent newNode)) \<subseteq> set (links ns) \<union> ?U"
    using "2.IH" by blast
  show ?case
  proof (cases "nid = parent")
    case True
    have "set (links (addNodeToTree (FileSystemNode nid nm ty co la None ope pa ha # ns)
                        parent newNode)) =
          {(nid, node_id newNode, name newNode, type newNode)} \<union> set (links [newNode]) \<union>
          set (links (addNodeToTree ns parent newNode))"
      using True by simp
    then show ?thesis
      using rest True by auto
  next
    case False
    then show ?thesis
      using rest by simp
  qed
next
  case (3 nid nm ty co la cs ope pa ha ns parent newNode)
  let ?U = "{(parent, node_id newNode, name newNode, type newNode)} \<union> set (links [newNode])"
  let ?K = "(\<lambda>c. (nid, node_id c, name c, type c)) ` set cs"
  have rest: "set (links (addNodeToTree ns parent newNode)) \<subseteq> set (links ns) \<union> ?U"
    using "3.IH"(2) by blast
  have old: "set (links (FileSystemNode nid nm ty co la (Some cs) ope pa ha # ns)) =
             ?K \<union> set (links cs) \<union> set (links ns)"
    by (simp add: Un_assoc)
  show ?case
  proof (cases "nid = parent")
    case True
    have "set (links (addNodeToTree (FileSystemNode nid nm ty co la (Some cs) ope pa ha # ns)
                        parent newNode)) =
          ?K \<union> {(nid, node_id newNode, name newNode, type newNode)} \<union>
          (set (links cs) \<union> set (links [newNode])) \<union>
          set (links (addNodeToTree ns parent newNode))"
      using True by (auto simp: links_append)
    then show ?thesis
      unfolding old using rest True by blast
  next
    case False
    have below: "set (links (addNodeToTree cs parent newNode)) \<subseteq> set (links cs) \<union> ?U"
      using "3.IH"(1) [OF False] by blast
    have "set (map (\<lambda>c. (nid, node_id c, name c, type c)) (addNodeToTree cs parent newNode)) = ?K"
      by (simp only: addNodeToTree_keys set_map)
    then have "set (links (addNodeToTree (FileSystemNode nid nm ty co la (Some cs) ope pa ha # ns)
                        parent newNode)) =
          ?K \<union> set (links (addNodeToTree cs parent newNode)) \<union>
          set (links (addNodeToTree ns parent newNode))"
      using False by (simp add: Un_assoc)
    then show ?thesis
      unfolding old using rest below by blast
  qed
qed

lemma keys_removeNodeFromTree:
  "(\<lambda>c. (node_id c, name c, type c)) ` set (removeNodeFromTree cs i) \<subseteq>
   (\<lambda>c. (node_id c, name c, type c)) ` set cs"
  by (induction cs i rule: removeNodeFromTree.induct) auto

lemma links_removeNodeFromTree:
  "set (links (removeNodeFromTree fs i)) \<subseteq> set (links fs)"
proof (induction fs i rule: removeNodeFromTree.induct)
  case (1 nodeId)
  then show ?case by simp
next
  case (2 nid nm ty co la ope pa ha ns nodeId)
  then show ?case by auto
next
  case (3 nid nm ty co la cs ope pa ha ns nodeId)
  have "(\<lambda>c. (nid, node_id c, name c, type c)) ` set (removeNodeFromTree cs nodeId) \<subseteq>
        (\<lambda>c. (nid, node_id c, name c, type c)) ` set cs"
    using keys_removeNodeFromTree [of cs nodeId] by auto
  then show ?case
    using "3.IH" by (auto split: if_splits)
qed

lemma grows_prefixed_refl: "grows_prefixed s s"
  by (simp add: grows_prefixed_def)

lemma grows_prefixed_trans:
  "grows_prefixed s s' \<Longrightarrow> grows_prefixed s' s'' \<Longrightarrow> grows_prefixed s s''"
  unfolding grows_prefixed_def by blast

lemma apply_update_grows: "update_ok u \<Longrightarrow> grows_prefixed s (apply_update s u)"
proof (cases u)
  case (SetFileSystem_add p n)
  assume "update_ok u"
  then show ?thesis
    using SetFileSystem_add links_addNodeToTree [of "fileSystem s" p n]
    by (auto simp: grows_prefixed_def)
next
  case (SetFileSystem_remove i)
  then show ?thesis
    using links_removeNodeFromTree [of "fileSystem s" i] by (auto simp: grows_prefixed_def)
qed (simp_all add: grows_prefixed_def)

lemma foldl_apply_update_grows:
  "list_all update_ok ups \<Longrightarrow> grows_prefixed s (foldl apply_update s ups)"
proof (induction ups arbitrary: s)
  case Nil
  then show ?case by (simp add: grows_prefixed_refl)
next
  case (Cons u ups)
  have "grows_prefixed s (apply_update s u)"
    using Cons.prems by (simp add: apply_update_grows)
  moreover have "grows_prefixed (apply_update s u) (foldl apply_update (apply_update s u) ups)"
    using Cons.IH Cons.prems by simp
  ultimately show ?case
    by (auto intro: grows_prefixed_trans)
qed

lemma cmd_ls_ok: "list_all update_ok (snd (cmd_ls d))"
  by (simp add: cmd_ls_def split: option.splits)

lemma cmd_pwd_ok: "list_all update_ok (snd (cmd_pwd p))"
  by (simp add: cmd_pwd_def)

lemma cmd_cd_ok: "list_all update_ok (snd (cmd_cd p d a))"
  by (simp add: cmd_cd_def split: option.splits)

lemma cmd_mkdir_ok: "list_all update_ok (snd (cmd_mkdir h d a))"
  by (simp add: cmd_mkdir_def split: option.splits sum.splits)

lemma cmd_touch_ok: "list_all update_ok (snd (cmd_touch h d a))"
  by (simp add: cmd_touch_def split: option.splits sum.splits)

lemma cmd_rm_ok: "list_all update_ok (snd (cmd_rm h d a))"
  by (simp add: cmd_rm_def split: option.splits sum.splits)

lemma cmd_cat_ok: "list_all update_ok (snd (cmd_cat h d a))"
  by (simp add: cmd_cat_def Let_def split: option.splits sum.splits prod.splits)

lemma handleTerminalCommand_ok: "list_all update_ok (snd (handleTerminalCommand h s cmd))"
  by (simp add: handleTerminalCommand_def Let_def cmd_ls_ok cmd_pwd_ok cmd_cd_ok cmd_mkdir_ok
        cmd_touch_ok cmd_rm_ok cmd_cat_ok)

lemma run_command_grows: "grows_prefixed s (snd (run_command h s cmd))"
  using foldl_apply_update_grows [OF handleTerminalCommand_ok, of s h s cmd]
  by (simp add: run_command_def case_prod_beta)

lemma flat_id_iff:
  "flat_id q i nm ty =
     ((ty = FOLDER \<longrightarrow> i = (if q = ''root'' then nm else q @ ''_'' @ nm)) \<and>
      (ty = FILE \<longrightarrow> i = q @ ''_'' @ nm \<or> (q = ''root'' \<and> i = nm)))"
  by (cases ty) (simp_all add: flat_id_def)

lemma ball_list_all: "\<forall>x \<in> set xs. P x \<Longrightarrow> list_all P xs"
  by (simp add: list_all_iff)

lemma ball_diff_list_all:
  "\<forall>x \<in> set xs - set ys. P x \<Longrightarrow> list_all P (filter (\<lambda>l. l \<notin> set ys) xs)"
  by (auto simp: list_all_iff)

subsection \<open>The id rule\<close>

text \<open>
  Claim C8, as stated: every node that the ingestion or a terminal create command makes
  has the id of its parent, an underscore and its name as id, so the flat ingestion
  gives a folder or file directly under the root an id \<open>root_<name>\<close>. It does
  not: from the path \<open>src/a.txt\<close> the folder under the root gets the id \<open>src\<close>,
  and a file selected without a relative path gets its bare name.
\<close>

theorem flat_ingestion_root_prefix_counterexample:
  "links (processInputFiles src_files :: unit FileSystemNode list) =
     [(''root'', ''src'', ''src'', FOLDER), (''src'', ''src_a.txt'', ''a.txt'', FILE)] \<and>
   findNode (processInputFiles src_files :: unit FileSystemNode list) ''root_src'' = None \<and>
   links (processInputFiles [notes_txt] :: unit FileSystemNode list) =
     [(''root'', ''notes.txt'', ''notes.txt'', FILE)] \<and>
   findNode (processInputFiles [notes_txt] :: unit FileSystemNode list) ''root_notes.txt'' = None"
  by code_simp

text \<open>
  Claim C8, amended. The root has the fixed id \<open>root\<close>. In the tree that the native
  directory enumeration stores, every node below the root has the id of its parent, an
  underscore and its name as id. Whatever command the terminal runs, every parent-child
  link that the tree has afterwards and did not have before obeys the same rule (these
  are the nodes that \<open>mkdir\<close>, \<open>touch\<close> and \<open>code\<close> create). In the tree that
  the flat ingestion stores, a folder whose parent has the id \<open>root\<close> has its bare
  name as id and any other folder is prefixed by its parent's id and an underscore; a
  file selected without a relative path lies under the root with its bare name as id,
  and every other file has the id of the folder its path ends in, an underscore and its
  name as id (\<open>root_name\<close> when the path has no folder). The links of that tree are
  exactly the links read off the paths of the files, \<open>file_links\<close>.
\<close>

theorem created_ids_rule:
  "map node_id (openRealFolder lc d) = [''root''] \<and>
   map node_id (processInputFiles fileList) = [''root''] \<and>
   (\<forall>(q, i, nm, ty) \<in> set (links (openRealFolder lc d)). i = q @ ''_'' @ nm) \<and>
   (\<forall>(q, i, nm, ty) \<in> set (links (fileSystem (snd (run_command h s cmd)))) -
                          set (links (fileSystem s)). i = q @ ''_'' @ nm) \<and>
   (\<forall>(q, i, nm, ty) \<in> set (links (processInputFiles fileList)).
      (ty = FOLDER \<longrightarrow> i = (if q = ''root'' then nm else q @ ''_'' @ nm)) \<and>
      (ty = FILE \<longrightarrow> (q, i, nm, ty) \<in> file_link ` set fileList)) \<and>
   set (links (processInputFiles fileList)) = set (concat (map file_links fileList))"
proof (intro conjI)
  show "map node_id (openRealFolder lc d) = [''root'']"
    by (simp add: openRealFolder_def)
  show "map node_id (processInputFiles fileList) = [''root'']"
    by (simp add: processInputFiles_def)
  show "\<forall>(q, i, nm, ty) \<in> set (links (openRealFolder lc d)). i = q @ ''_'' @ nm"
    by (rule openRealFolder_prefixed)
  show "\<forall>(q, i, nm, ty) \<in> set (links (fileSystem (snd (run_command h s cmd)))) -
                          set (links (fileSystem s)). i = q @ ''_'' @ nm"
    using run_command_grows [of s h cmd] by (simp add: grows_prefixed_def)
  show "\<forall>(q, i, nm, ty) \<in> set (links (processInputFiles fileList)).
      (ty = FOLDER \<longrightarrow> i = (if q = ''root'' then nm else q @ ''_'' @ nm)) \<and>
      (ty = FILE \<longrightarrow> (q, i, nm, ty) \<in> file_link ` set fileList)"
  proof (intro ballI, clarify, intro conjI impI)
    fix q i nm ty
    assume "(q, i, nm, ty) \<in> set (links (processInputFiles fileList))" and "ty = FOLDER"
    then show "i = (if q = ''root'' then nm else q @ ''_'' @ nm)"
      using processInputFiles_flat [of fileList] by (auto simp: flat_id_iff)
  next
    fix q i nm ty
    assume "(q, i, nm, ty) \<in> set (links (processInputFiles fileList))" and "ty = FILE"
    then show "(q, i, nm, ty) \<in> file_link ` set fileList"
      using processInputFiles_file_links [of q i nm fileList] by simp
  qed
  show "set (links (processInputFiles fileList)) = set (concat (map file_links fileList))"
    by (rule processInputFiles_links)
qed

theorem created_ids_rule_witness:
  "links (openRealFolder codeunit_compare host_dir) =
     [(''root'', ''root_src'', ''src'', FOLDER), (''root'', ''root_app.js'', ''app.js'', FILE),
      (''root'', ''root_big.txt'', ''big.txt'', FILE)] \<and>
   list_all (\<lambda>(q, i, nm, ty). i = q @ ''_'' @ nm) (links (openRealFolder codeunit_compare host_dir)) \<and>
   filter (\<lambda>l. l \<notin> set (links (fileSystem (opened_files [notes_txt]))))
     (links (fileSystem (snd (run_command refusing_host (opened_files [notes_txt]) ''mkdir x'')))) =
     [(''root'', ''root_x'', ''x'', FOLDER)] \<and>
   list_all (\<lambda>(q, i, nm, ty). i = q @ ''_'' @ nm)
     (filter (\<lambda>l. l \<notin> set (links (fileSystem (opened_files [notes_txt]))))
        (links (fileSystem (snd (run_command refusing_host (opened_files [notes_txt])
                                   ''mkdir x''))))) \<and>
   list_all (\<lambda>(q, i, nm, ty).
               (ty = FOLDER \<longrightarrow> i = (if q = ''root'' then nm else q @ ''_'' @ nm)) \<and>
               (ty = FILE \<longrightarrow> (q, i, nm, ty) \<in> file_link ` set edge_files))
     (links (processInputFiles edge_files :: unit FileSystemNode list)) \<and>
   set (links (processInputFiles edge_files :: unit FileSystemNode list)) =
     set (concat (map file_links edge_files)) \<and>
   map file_link edge_files =
     [(''root'', ''n.txt'', ''n.txt'', FILE), (''root'', ''root_c.txt'', ''c.txt'', FILE),
      (''root'', ''root_d.txt'', ''d.txt'', FILE), (''src'', ''src_a.txt'', ''a.txt'', FILE),
      (''src_sub'', ''src_sub_b.txt'', ''b.txt'', FILE)] \<and>
   links (processInputFiles edge_files :: unit FileSystemNode list) =
     [(''root'', ''n.txt'', ''n.txt'', FILE), (''root'', ''root_c.txt'', ''c.txt'', FILE),
      (''root'', ''root'', ''root'', FOLDER), (''root'', ''src'', ''src'', FOLDER),
      (''root'', ''root_d.txt'', ''d.txt'', FILE), (''src'', ''src_a.txt'', ''a.txt'', FILE),
      (''src'', ''src_sub'', ''sub'', FOLDER), (''src_sub'', ''src_sub_b.txt'', ''b.txt'', FILE)]"
proof -
  note rule = created_ids_rule [of codeunit_compare host_dir edge_files refusing_host
                                   "opened_files [notes_txt]" "''mkdir x''"]
  have a: "links (openRealFolder codeunit_compare host_dir) =
     [(''root'', ''root_src'', ''src'', FOLDER), (''root'', ''root_app.js'', ''app.js'', FILE),
      (''root'', ''root_big.txt'', ''big.txt'', FILE)]"
    by code_simp
  have b: "filter (\<lambda>l. l \<notin> set (links (fileSystem (opened_files [notes_txt]))))
     (links (fileSystem (snd (run_command refusing_host (opened_files [notes_txt]) ''mkdir x'')))) =
     [(''root'', ''root_x'', ''x'', FOLDER)]"
    by code_simp
  have g: "map file_link edge_files =
     [(''root'', ''n.txt'', ''n.txt'', FILE), (''root'', ''root_c.txt'', ''c.txt'', FILE),
      (''root'', ''root_d.txt'', ''d.txt'', FILE), (''src'', ''src_a.txt'', ''a.txt'', FILE),
      (''src_sub'', ''src_sub_b.txt'', ''b.txt'', FILE)]"
    by code_simp
  have k: "links (processInputFiles edge_files :: unit FileSystemNode list) =
     [(''root'', ''n.txt'', ''n.txt'', FILE), (''root'', ''root_c.txt'', ''c.txt'', FILE),
      (''root'', ''root'', ''root'', FOLDER), (''root'', ''src'', ''src'', FOLDER),
      (''root'', ''root_d.txt'', ''d.txt'', FILE), (''src'', ''src_a.txt'', ''a.txt'', FILE),
      (''src'', ''src_sub'', ''sub'', FOLDER), (''src_sub'', ''src_sub_b.txt'', ''b.txt'', FILE)]"
    by code_simp
  note rules = rule [THEN conjunct2, THEN conjunct2]
  note c = ball_list_all [OF rules [THEN conjunct1]]
  note d = ball_diff_list_all [OF rules [THEN conjunct2, THEN conjunct1]]
  note e = ball_list_all [OF rules [THEN conjunct2, THEN conjunct2, THEN conjunct1]]
  note f = rules [THEN conjunct2, THEN conjunct2, THEN conjunct2]
  from a b c d e f g k show ?thesis
    by (intro conjI)
qed

end
